theory Spec2Isabelle
  imports Main
begin

section \<open>Python values used by both components\<close>

text \<open>
  Python's truth test on the values the code tests with \<open>if not x\<close> and \<open>x or y\<close>:
  \<open>None\<close> and the empty string are false, every other string is true.
\<close>

definition truthy :: "string option \<Rightarrow> bool" where
  "truthy v = (case v of None \<Rightarrow> False | Some s \<Rightarrow> s \<noteq> [])"

text \<open>\<open>x or d\<close> for an optional string \<open>x\<close> and a string \<open>d\<close>.\<close>

definition py_or :: "string option \<Rightarrow> string \<Rightarrow> string" where
  "py_or v d = (case v of None \<Rightarrow> d | Some s \<Rightarrow> (if s = [] then d else s))"

text \<open>\<open>needle in haystack\<close> on strings: a contiguous occurrence.\<close>

fun starts_with :: "string \<Rightarrow> string \<Rightarrow> bool" where
  "starts_with [] ys = True"
| "starts_with (x # xs) [] = False"
| "starts_with (x # xs) (y # ys) = (x = y \<and> starts_with xs ys)"

fun str_in :: "string \<Rightarrow> string \<Rightarrow> bool" where
  "str_in needle [] = (needle = [])"
| "str_in needle (c # cs) = (starts_with needle (c # cs) \<or> str_in needle cs)"

text \<open>
  \<open>str.strip()\<close> and \<open>str.rstrip("/")\<close>. The whitespace of \<open>strip\<close> is the ASCII
  part of Python's: space, tab, line feed, vertical tab, form feed, carriage return and
  the four separators 0x1C to 0x1F.
\<close>

definition py_space :: "char \<Rightarrow> bool" where
  "py_space c = (c \<in> set [CHR 0x20, CHR 0x09, CHR 0x0A, CHR 0x0B, CHR 0x0C, CHR 0x0D,
                            CHR 0x1C, CHR 0x1D, CHR 0x1E, CHR 0x1F])"

definition strip :: "string \<Rightarrow> string" where
  "strip s = rev (dropWhile py_space (rev (dropWhile py_space s)))"

definition rstrip_slash :: "string \<Rightarrow> string" where
  "rstrip_slash s = rev (dropWhile (\<lambda>c. c = CHR ''/'') (rev s))"


section \<open>The language-model gateway (app/services/granite\_llm.py)\<close>

definition DEFAULT_MODEL_ID :: string where
  "DEFAULT_MODEL_ID = ''ibm/granite-3-8b-instruct''"

definition FALLBACK_MODEL_ORDER :: "string list" where
  "FALLBACK_MODEL_ORDER =
     [''ibm/granite-3-8b-instruct'',
      ''ibm/granite-3-3-8b-instruct'',
      ''ibm/granite-3-2-8b-instruct'',
      ''ibm/granite-3-2b-instruct'']"

text \<open>
  Modelled from the spec: \<open>app.core.config.settings\<close> is not among the sources; the
  gateway reads four optional strings from it (the API key, the project id, the service
  URL and the preferred model identifier of section 4.2).
\<close>

record settings =
  watsonx_api_key :: "string option"
  watsonx_project_id :: "string option"
  watsonx_url :: "string option"
  watsonx_model_id :: "string option"

text \<open>The fields \<open>GraniteLLM.__init__\<close> sets on \<open>self\<close>.\<close>

record gateway =
  api_key :: string
  project_id :: string
  url :: string
  model_id :: string
  token :: "string option"
  available_models :: "string set"

subsection \<open>The remote service\<close>

text \<open>
  What a generation POST can do to \<open>_make_request\<close>: return a body from which the
  generated text is read (the empty string when the field is absent); fail
  \<open>raise_for_status\<close> with an \<open>HTTPError\<close> whose \<open>response\<close> is absent or carries a
  status code and a text; or raise anything else (time-out, connection error, a body
  that is not JSON, an empty \<open>results\<close> list), which the last handler catches.
\<close>

datatype gen_outcome =
    Generated string
  | HTTPError "(nat \<times> string) option"
  | OtherError

text \<open>
  What the catalogue GET can do to \<open>_load_available_models\<close>: fail in any way, or
  return the list \<open>resources\<close>, each item reduced to what the loop reads of it: its
  \<open>model_id\<close> as a string, or \<open>None\<close> when the item is no dictionary or has none.
\<close>

datatype catalog_outcome =
    Catalog "string option list"
  | CatalogError

text \<open>
  The service is a script: the answers it gives to the generation calls and to the
  catalogue calls of this process, in order. Past the end of a script the service is
  unreachable (\<open>requests\<close> raises a connection error). \<open>posted\<close> logs the model
  identifier of every generation POST sent, \<open>catalog_calls\<close> counts the catalogue GETs.
\<close>

record world =
  iam_reply :: "string option"
  gen_replies :: "gen_outcome list"
  catalog_replies :: "catalog_outcome list"
  posted :: "string list"
  catalog_calls :: nat

definition post_generation :: "world \<Rightarrow> string \<Rightarrow> gen_outcome \<times> world" where
  "post_generation w mid =
     (case gen_replies w of
        [] \<Rightarrow> (OtherError, w\<lparr>posted := posted w @ [mid]\<rparr>)
      | r # rs \<Rightarrow> (r, w\<lparr>gen_replies := rs, posted := posted w @ [mid]\<rparr>))"

definition get_catalog :: "world \<Rightarrow> catalog_outcome \<times> world" where
  "get_catalog w =
     (case catalog_replies w of
        [] \<Rightarrow> (CatalogError, w\<lparr>catalog_calls := Suc (catalog_calls w)\<rparr>)
      | r # rs \<Rightarrow> (r, w\<lparr>catalog_replies := rs, catalog_calls := Suc (catalog_calls w)\<rparr>))"

subsection \<open>The gateway's operations\<close>

text \<open>\<open>_get_iam_token\<close>: no request without an API key; any failure gives \<open>None\<close>.\<close>

definition get_iam_token :: "gateway \<Rightarrow> world \<Rightarrow> string option" where
  "get_iam_token g w = (if api_key g = [] then None else iam_reply w)"

text \<open>The loop of \<open>_load_available_models\<close> over \<open>resources\<close>.\<close>

fun supported :: "string option list \<Rightarrow> string set" where
  "supported [] = {}"
| "supported (None # items) = supported items"
| "supported (Some m # items) = (if m = [] then supported items else insert m (supported items))"

definition load_available_models :: "world \<Rightarrow> string set \<times> world" where
  "load_available_models w =
     (case get_catalog w of
        (Catalog resources, w') \<Rightarrow> (supported resources, w')
      | (CatalogError, w') \<Rightarrow> ({}, w'))"

text \<open>
  \<open>_select_supported_model\<close>. The ranking it walks is the module global
  \<open>FALLBACK_MODEL_ORDER\<close>, read when the loop runs; it is the first argument here, and
  the gateway's own calls pass the constant.
\<close>

definition select_supported_model ::
  "string list \<Rightarrow> bool \<Rightarrow> gateway \<Rightarrow> world \<Rightarrow> gateway \<times> world" where
  "select_supported_model ranking force_refresh g w =
     (if \<not> truthy (token g) then (g, w)
      else
        let (g1, w1) =
              (if force_refresh
               then (case load_available_models w of
                       (ms, w') \<Rightarrow> (g\<lparr>available_models := ms\<rparr>, w'))
               else (g, w))
        in if available_models g1 = {} then (g1, w1)
           else if model_id g1 \<in> available_models g1 then (g1, w1)
           else (case find (\<lambda>candidate. candidate \<in> available_models g1) ranking of
                   Some candidate \<Rightarrow> (g1\<lparr>model_id := candidate\<rparr>, w1)
                 | None \<Rightarrow> (g1, w1)))"

text \<open>The test of line 104 on the caught \<open>HTTPError\<close>.\<close>

definition model_not_supported :: "(nat \<times> string) option \<Rightarrow> bool" where
  "model_not_supported resp =
     (case resp of
        None \<Rightarrow> False
      | Some (status_code, response_text) \<Rightarrow>
          status_code = 404 \<and> str_in ''model_not_supported'' response_text)"

text \<open>
  \<open>_make_request\<close>: the outcome (\<open>None\<close> or the text), with the gateway and the service
  as the call leaves them. The retry of line 109 is the recursive call; it follows a
  generation POST that the service answered, so the recursion ends with the script of
  answers (the termination proof is the first of the properties below).
\<close>

function make_request ::
  "gateway \<Rightarrow> world \<Rightarrow> string \<Rightarrow> int \<Rightarrow> string option \<times> gateway \<times> world" where
  "make_request g w prompt max_tokens =
     (if \<not> truthy (token g) then (None, g, w)
      else if project_id g = [] then (None, g, w)
      else
        (case post_generation w (if model_id g = [] then DEFAULT_MODEL_ID else model_id g) of
           (Generated generated_text, w1) \<Rightarrow> (Some generated_text, g, w1)
         | (OtherError, w1) \<Rightarrow> (None, g, w1)
         | (HTTPError resp, w1) \<Rightarrow>
             if model_not_supported resp
             then (case select_supported_model FALLBACK_MODEL_ORDER True g w1 of
                     (g2, w2) \<Rightarrow>
                       if model_id g2 \<noteq> model_id g
                       then make_request g2 w2 prompt max_tokens
                       else (None, g2, w2))
             else (None, g, w1)))"
  by pat_completeness auto

text \<open>
  \<open>GraniteLLM.__init__\<close>: the settings are read, the IAM token is requested, the
  catalogue is loaded when a token is held, and the model is selected without a refresh.
\<close>

definition init :: "settings \<Rightarrow> world \<Rightarrow> gateway \<times> world" where
  "init st w =
     (let g0 = \<lparr>api_key = py_or (watsonx_api_key st) [],
                project_id = py_or (watsonx_project_id st) [],
                url = (case watsonx_url st of
                         None \<Rightarrow> ''https://us-south.ml.cloud.ibm.com''
                       | Some u \<Rightarrow> (if u = [] then ''https://us-south.ml.cloud.ibm.com''
                                   else rstrip_slash u)),
                model_id = strip (py_or (watsonx_model_id st) DEFAULT_MODEL_ID),
                token = None,
                available_models = {}\<rparr>;
          g1 = g0\<lparr>token := get_iam_token g0 w\<rparr>;
          (ms, w1) = (if truthy (token g1) then load_available_models w else ({}, w));
          g2 = g1\<lparr>available_models := ms\<rparr>
      in select_supported_model FALLBACK_MODEL_ORDER False g2 w1)"

subsection \<open>The three convenience wrappers\<close>

definition system_prompt :: string where
  "system_prompt =
     ''You are a helpful assistant for a smart city platform. '' @ [CHR 0x0A] @
     ''        Provide informative, concise answers about urban sustainability, '' @
     ''governance, and smart city technologies.''"

definition ask_granite_fallback :: string where
  "ask_granite_fallback =
     ''I'' @ [CHR 0x27] @ ''m sorry, I couldn'' @ [CHR 0x27] @
     ''t process your request at the moment.''"

definition ask_granite_prompt :: "string \<Rightarrow> string" where
  "ask_granite_prompt prompt =
     system_prompt @ [CHR 0x0A, CHR 0x0A] @ ''User: '' @ prompt @ [CHR 0x0A] @ ''Assistant:''"

definition ask_granite :: "gateway \<Rightarrow> world \<Rightarrow> string \<Rightarrow> string \<times> gateway \<times> world" where
  "ask_granite g w prompt =
     (case make_request g w (ask_granite_prompt prompt) 500 of
        (response, g', w') \<Rightarrow> (py_or response ask_granite_fallback, g', w'))"

definition generate_summary_fallback :: string where
  "generate_summary_fallback = ''Unable to generate summary.''"

definition generate_summary_prompt :: "string \<Rightarrow> string" where
  "generate_summary_prompt text =
     ''Summarize the following policy document in a clear, citizen-friendly format:'' @
     [CHR 0x0A, CHR 0x0A] @ text @ [CHR 0x0A, CHR 0x0A] @ ''Summary:''"

definition generate_summary :: "gateway \<Rightarrow> world \<Rightarrow> string \<Rightarrow> string \<times> gateway \<times> world" where
  "generate_summary g w text =
     (case make_request g w (generate_summary_prompt text) 300 of
        (response, g', w') \<Rightarrow> (py_or response generate_summary_fallback, g', w'))"

text \<open>The fallback of \<open>generate_eco_tip\<close> is an f-string: the topic is part of it.\<close>

definition generate_eco_tip_fallback :: "string \<Rightarrow> string" where
  "generate_eco_tip_fallback topic =
     ''Here are some general tips for '' @ topic @
     '': reduce consumption, reuse materials, and recycle properly.''"

definition generate_eco_tip_prompt :: "string \<Rightarrow> string" where
  "generate_eco_tip_prompt topic =
     ''Generate 3 practical, actionable eco-friendly tips related to '' @
     [CHR 0x22] @ topic @ [CHR 0x22] @ '' for city residents:'' @
     [CHR 0x0A, CHR 0x0A] @ ''Tips:''"

definition generate_eco_tip :: "gateway \<Rightarrow> world \<Rightarrow> string \<Rightarrow> string \<times> gateway \<times> world" where
  "generate_eco_tip g w topic =
     (case make_request g w (generate_eco_tip_prompt topic) 200 of
        (response, g', w') \<Rightarrow> (py_or response (generate_eco_tip_fallback topic), g', w'))"

section \<open>Identity and access (app/services/auth\_service.py, app/api/dependencies.py)\<close>

subsection \<open>Exceptions\<close>

text \<open>
  The exceptions that reach the functions below: the three that \<open>jose\<close> raises (the
  last two are subclasses of \<open>JWTError\<close>), FastAPI's \<open>HTTPException\<close> with its status
  code and detail, and any other exception, by its message.
\<close>

datatype exn =
    JWTError
  | ExpiredSignatureError
  | JWTClaimsError
  | HTTPException nat string
  | Exception string

text \<open>What \<open>except JWTError\<close> catches.\<close>

fun is_JWTError :: "exn \<Rightarrow> bool" where
  "is_JWTError JWTError = True"
| "is_JWTError ExpiredSignatureError = True"
| "is_JWTError JWTClaimsError = True"
| "is_JWTError (HTTPException status_code detail) = False"
| "is_JWTError (Exception message) = False"

subsection \<open>Roles and subjects\<close>

text \<open>
  Modelled from the spec: \<open>app.models\<close> (\<open>User\<close>, \<open>UserType\<close>) is not among the
  sources. Roles are the closed enumeration of section 4.1; the values of its two
  members are the strings the frontend compares the login response's \<open>user_type\<close>
  with.
\<close>

datatype UserType = USER | AUTHORITY

fun UserType_value :: "UserType \<Rightarrow> string" where
  "UserType_value USER = ''user''"
| "UserType_value AUTHORITY = ''authority''"

text \<open>The call \<open>UserType(s)\<close>: the member with that value; \<open>None\<close> is its \<open>ValueError\<close>.\<close>

definition UserType_of_value :: "string \<Rightarrow> UserType option" where
  "UserType_of_value s =
     (if s = ''user'' then Some USER
      else if s = ''authority'' then Some AUTHORITY
      else None)"

text \<open>
  What \<open>getattr(user, "user_type", None)\<close> can give: a member of the enumeration, a
  string, or \<open>None\<close>.
\<close>

datatype role_attr = RoleEnum UserType | RoleStr string | RoleNone

text \<open>
  Modelled from the spec: the columns of \<open>User\<close> that the sources read and write
  (section 3). \<open>password_hash\<close> is \<open>None\<close> when the attribute is missing or is not a
  string, \<open>is_active\<close> is the attribute's truth value.
\<close>

record user =
  user_id :: int
  name :: string
  phone_number :: string
  email :: "string option"
  password_hash :: "string option"
  address :: "string option"
  department :: "string option"
  position :: "string option"
  feedback_route :: "string option"
  user_type :: role_attr
  is_active :: bool
  is_approved :: bool
  created_at :: int
  last_login :: "int option"

text \<open>
  The \<open>users\<close> table behind the session: its rows in storage order, and the identifier
  the next insert gets. \<open>query(User).filter(p).first()\<close> is \<open>find p\<close> on the rows. A
  commit always succeeds here.
\<close>

record database =
  rows :: "user list"
  next_id :: int

text \<open>
  \<open>db.add(u); db.commit(); db.refresh(u)\<close>. Modelled from the spec: the identifier and
  the creation time are column defaults of \<open>app.models\<close>.
\<close>

definition db_add :: "database \<Rightarrow> user \<Rightarrow> int \<Rightarrow> user \<times> database" where
  "db_add db u now =
     (let u' = u\<lparr>user_id := next_id db, created_at := now\<rparr>
      in (u', \<lparr>rows = rows db @ [u'], next_id = next_id db + 1\<rparr>))"

text \<open>Committing a change made to the object that \<open>first()\<close> returned.\<close>

fun update_first :: "('a \<Rightarrow> bool) \<Rightarrow> ('a \<Rightarrow> 'a) \<Rightarrow> 'a list \<Rightarrow> 'a list" where
  "update_first p f [] = []"
| "update_first p f (x # xs) = (if p x then f x # xs else x # update_first p f xs)"

subsection \<open>Passwords\<close>

text \<open>
  \<open>passlib\<close> is a library, not code of the repository: the two calls the module makes
  on \<open>pwd_context\<close> are parameters. Either may raise (\<open>verify\<close> does on a string it
  cannot identify as a hash).
\<close>

record crypt_context =
  ctx_hash :: "string \<Rightarrow> exn + string"
  ctx_verify :: "string \<Rightarrow> string \<Rightarrow> exn + bool"

definition verify_password :: "crypt_context \<Rightarrow> string \<Rightarrow> string \<Rightarrow> exn + bool" where
  "verify_password pwd_context plain_password hashed_password =
     ctx_verify pwd_context plain_password hashed_password"

definition get_password_hash :: "crypt_context \<Rightarrow> string \<Rightarrow> exn + string" where
  "get_password_hash pwd_context password = ctx_hash pwd_context password"

subsection \<open>Tokens\<close>

text \<open>The values of a claim: strings and integers.\<close>

datatype jval = JStr string | JInt int

type_synonym claims = "string \<Rightarrow> jval option"

text \<open>
  \<open>jose.jwt\<close> is a library too. Its tokens are modelled symbolically: a string is either
  the encoding of a payload signed under a key with an algorithm, or not a token at all.
  A signature verifies under the key that made it and under no other.
\<close>

datatype jwt =
    Signed string string claims
  | Garbage string

definition jwt_encode :: "claims \<Rightarrow> string \<Rightarrow> string \<Rightarrow> jwt" where
  "jwt_encode payload key algorithm = Signed algorithm key payload"

text \<open>
  \<open>jwt.decode\<close>: the signature, then the claims. A token past its \<open>exp\<close> is expired
  (\<open>exp < now\<close>), an \<open>exp\<close> that is no integer is a claims error. The checks \<open>jose\<close>
  makes on the other registered claims when they are present (\<open>nbf\<close>, \<open>iat\<close>, \<open>aud\<close>,
  \<open>iss\<close>, \<open>sub\<close>, \<open>jti\<close>, \<open>at_hash\<close>) are the parameter \<open>checks\<close>. Instants are
  whole seconds, the resolution of \<open>exp\<close>.
\<close>

definition jwt_decode ::
  "(claims \<Rightarrow> int \<Rightarrow> bool) \<Rightarrow> jwt \<Rightarrow> string \<Rightarrow> string list \<Rightarrow> int \<Rightarrow> exn + claims" where
  "jwt_decode checks tok key algorithms now =
     (case tok of
        Garbage s \<Rightarrow> Inl JWTError
      | Signed alg k payload \<Rightarrow>
          if alg \<notin> set algorithms then Inl JWTError
          else if k \<noteq> key then Inl JWTError
          else (case payload ''exp'' of
                  Some (JStr s) \<Rightarrow> Inl JWTClaimsError
                | Some (JInt exp) \<Rightarrow>
                    if exp < now then Inl ExpiredSignatureError
                    else if checks payload now then Inr payload else Inl JWTClaimsError
                | None \<Rightarrow>
                    if checks payload now then Inr payload else Inl JWTClaimsError))"

text \<open>
  Modelled from the spec: the three module constants read from
  \<open>app.core.config.settings\<close>, which is not among the sources: the signing secret, the
  one signing algorithm and the default time to live in minutes (section 4.1).
\<close>

record jwt_config =
  SECRET_KEY :: string
  ALGORITHM :: string
  ACCESS_TOKEN_EXPIRE_MINUTES :: int

text \<open>
  \<open>create_access_token\<close> at the instant \<open>now\<close>. \<open>expires_delta\<close> is in seconds;
  \<open>expires_delta or timedelta(minutes=...)\<close> takes the default for \<open>None\<close> and for a zero
  duration, which is false in Python.
\<close>

definition create_access_token :: "jwt_config \<Rightarrow> claims \<Rightarrow> int option \<Rightarrow> int \<Rightarrow> jwt" where
  "create_access_token cfg data expires_delta now =
     (let expire = now + (case expires_delta of
                            None \<Rightarrow> 60 * ACCESS_TOKEN_EXPIRE_MINUTES cfg
                          | Some d \<Rightarrow> if d = 0 then 60 * ACCESS_TOKEN_EXPIRE_MINUTES cfg else d);
          to_encode = data(''exp'' \<mapsto> JInt expire)
      in jwt_encode to_encode (SECRET_KEY cfg) (ALGORITHM cfg))"

text \<open>\<open>verify_token\<close>: \<open>Inl\<close> is an exception that \<open>except JWTError\<close> does not catch.\<close>

definition verify_token ::
  "jwt_config \<Rightarrow> (claims \<Rightarrow> int \<Rightarrow> bool) \<Rightarrow> jwt \<Rightarrow> int \<Rightarrow> exn + claims option" where
  "verify_token cfg checks tok now =
     (case jwt_decode checks tok (SECRET_KEY cfg) [ALGORITHM cfg] now of
        Inr payload \<Rightarrow> Inr (Some payload)
      | Inl e \<Rightarrow> if is_JWTError e then Inr None else Inl e)"

subsection \<open>Authentication and registration\<close>

definition authenticate_user ::
  "crypt_context \<Rightarrow> database \<Rightarrow> string \<Rightarrow> string \<Rightarrow> int \<Rightarrow> exn + user option \<times> database" where
  "authenticate_user pwd_context db identifier password now =
     (let matches = (\<lambda>u. phone_number u = identifier \<or> email u = Some identifier)
      in case find matches (rows db) of
           None \<Rightarrow> Inr (None, db)
         | Some u \<Rightarrow>
             (case password_hash u of
                None \<Rightarrow> Inr (None, db)
              | Some h \<Rightarrow>
                  (case verify_password pwd_context password h of
                     Inl e \<Rightarrow> Inl e
                   | Inr ok \<Rightarrow>
                       if \<not> ok then Inr (None, db)
                       else if \<not> is_active u then Inr (None, db)
                       else
                         let u' = u\<lparr>last_login := Some now\<rparr>
                         in Inr (Some u',
                                 db\<lparr>rows := update_first matches (\<lambda>_. u') (rows db)\<rparr>))))"

text \<open>What the two registration functions return: the new \<open>User\<close>, or a dictionary
  with the key \<open>error\<close>.\<close>

datatype registration = Registered user | Error string

definition register_user ::
  "crypt_context \<Rightarrow> database \<Rightarrow> string \<Rightarrow> string \<Rightarrow> string \<Rightarrow> string option \<Rightarrow>
   string option \<Rightarrow> int \<Rightarrow> exn + registration \<times> database" where
  "register_user pwd_context db name' phone_number' password email' address' now =
     (if find (\<lambda>u. phone_number u = phone_number') (rows db) \<noteq> None
      then Inr (Error ''Phone number already registered'', db)
      else if truthy email' \<and> find (\<lambda>u. email u = email') (rows db) \<noteq> None
      then Inr (Error ''Email already registered'', db)
      else
        (case get_password_hash pwd_context password of
           Inl e \<Rightarrow> Inl e
         | Inr hashed_password \<Rightarrow>
             (case db_add db
                     \<lparr>user_id = 0, name = name', phone_number = phone_number',
                      email = email', password_hash = Some hashed_password,
                      address = address', department = None, position = None,
                      feedback_route = None, user_type = RoleEnum USER,
                      is_active = True, is_approved = True,
                      created_at = 0, last_login = None\<rparr> now of
                (new_user, db') \<Rightarrow> Inr (Registered new_user, db'))))"

definition register_authority ::
  "crypt_context \<Rightarrow> database \<Rightarrow> string \<Rightarrow> string \<Rightarrow> string \<Rightarrow> string \<Rightarrow> string \<Rightarrow>
   string \<Rightarrow> int \<Rightarrow> exn + registration \<times> database" where
  "register_authority pwd_context db name' position' feedback_route' phone_number' email'
     password now =
     (if find (\<lambda>u. phone_number u = phone_number') (rows db) \<noteq> None
      then Inr (Error ''Phone number already registered'', db)
      else if find (\<lambda>u. email u = Some email') (rows db) \<noteq> None
      then Inr (Error ''Email already registered'', db)
      else
        (case get_password_hash pwd_context password of
           Inl e \<Rightarrow> Inl e
         | Inr hashed_password \<Rightarrow>
             (case db_add db
                     \<lparr>user_id = 0, name = name', phone_number = phone_number',
                      email = Some email', password_hash = Some hashed_password,
                      address = None, department = None, position = Some position',
                      feedback_route = Some feedback_route', user_type = RoleEnum AUTHORITY,
                      is_active = True, is_approved = True,
                      created_at = 0, last_login = None\<rparr> now of
                (authority, db') \<Rightarrow> Inr (Registered authority, db'))))"

subsection \<open>The current user\<close>

text \<open>
  \<open>int(s)\<close> on a string, for ASCII: surrounding whitespace is dropped, one sign may
  lead, and the rest is decimal digits, with single underscores allowed between digits.
  \<open>None\<close> is its \<open>ValueError\<close>.
\<close>

definition is_digit :: "char \<Rightarrow> bool" where
  "is_digit c = (48 \<le> (of_char c :: nat) \<and> (of_char c :: nat) \<le> 57)"

fun digits_ok :: "string \<Rightarrow> bool" where
  "digits_ok [] = False"
| "digits_ok [c] = is_digit c"
| "digits_ok (c # d # cs) =
     (is_digit c \<and> (if d = CHR ''_'' then digits_ok cs else digits_ok (d # cs)))"

definition digits_value :: "string \<Rightarrow> nat" where
  "digits_value s = foldl (\<lambda>n c. 10 * n + (of_char c - 48)) 0 (filter is_digit s)"

definition py_int :: "string \<Rightarrow> int option" where
  "py_int s =
     (let t = strip s;
          (negative, body) =
            (case t of
               [] \<Rightarrow> (False, [])
             | c # cs \<Rightarrow>
                 if c = CHR ''-'' then (True, cs)
                 else if c = CHR ''+'' then (False, cs)
                 else (False, t))
      in if digits_ok body
         then Some (if negative then - int (digits_value body) else int (digits_value body))
         else None)"

text \<open>\<open>not v\<close> and \<open>int(v)\<close> on the value of a claim.\<close>

fun jval_falsy :: "jval \<Rightarrow> bool" where
  "jval_falsy (JStr s) = (s = [])"
| "jval_falsy (JInt n) = (n = 0)"

fun jval_int :: "jval \<Rightarrow> int option" where
  "jval_int (JStr s) = py_int s"
| "jval_int (JInt n) = Some n"

text \<open>
  \<open>get_current_user\<close>: \<open>credentials\<close> is the bearer token of the request, if it has
  one. An empty payload is false in Python, as a missing one is.
\<close>

definition get_current_user ::
  "jwt_config \<Rightarrow> (claims \<Rightarrow> int \<Rightarrow> bool) \<Rightarrow> jwt option \<Rightarrow> database \<Rightarrow> int \<Rightarrow> exn + user" where
  "get_current_user cfg checks credentials db now =
     (case credentials of
        None \<Rightarrow> Inl (HTTPException 401 ''Not authenticated'')
      | Some tok \<Rightarrow>
          (case verify_token cfg checks tok now of
             Inl e \<Rightarrow> Inl e
           | Inr None \<Rightarrow> Inl (HTTPException 401 ''Invalid or expired token'')
           | Inr (Some payload) \<Rightarrow>
               if payload = Map.empty
               then Inl (HTTPException 401 ''Invalid or expired token'')
               else
                 (case payload ''sub'' of
                    None \<Rightarrow> Inl (HTTPException 401 ''Invalid token payload'')
                  | Some sub \<Rightarrow>
                      if jval_falsy sub
                      then Inl (HTTPException 401 ''Invalid token payload'')
                      else
                        (case jval_int sub of
                           None \<Rightarrow> Inl (HTTPException 401 ''Invalid token subject'')
                         | Some user_id_int \<Rightarrow>
                             (case find (\<lambda>u. user_id u = user_id_int) (rows db) of
                                None \<Rightarrow>
                                  Inl (HTTPException 401 ''User inactive or not found'')
                              | Some u \<Rightarrow>
                                  if \<not> is_active u
                                  then Inl (HTTPException 401 ''User inactive or not found'')
                                  else Inr u)))))"

subsection \<open>The role gates\<close>

text \<open>
  The coercion both gates start with: a member of the enumeration stands; anything else
  goes through \<open>UserType(str(...))\<close>, and a \<open>ValueError\<close> leaves \<open>None\<close>.
\<close>

definition coerce_role :: "role_attr \<Rightarrow> UserType option" where
  "coerce_role current_role =
     (case current_role of
        RoleEnum r \<Rightarrow> Some r
      | RoleStr s \<Rightarrow> UserType_of_value s
      | RoleNone \<Rightarrow> UserType_of_value ''None'')"


text \<open>\<open>require_any_role(*allowed_roles)\<close>, applied to the current user.\<close>

definition require_any_role :: "UserType list \<Rightarrow> user \<Rightarrow> exn + user" where
  "require_any_role allowed_roles current_user =
     (let current_role = coerce_role (user_type current_user)
      in if allowed_roles \<noteq> [] \<and>
            (case current_role of None \<Rightarrow> True | Some r \<Rightarrow> r \<notin> set allowed_roles)
         then Inl (HTTPException 403 ''Insufficient permissions'')
         else Inr current_user)"

text \<open>
  \<open>Depends(get_current_user)\<close>: a gate runs on the user that \<open>get_current_user\<close>
  returned, and not at all when it raised.
\<close>

definition depends :: "exn + user \<Rightarrow> (user \<Rightarrow> exn + user) \<Rightarrow> exn + user" where
  "depends resolved role_checker =
     (case resolved of Inl e \<Rightarrow> Inl e | Inr current_user \<Rightarrow> role_checker current_user)"

section \<open>Notions and concrete inputs for the gateway\<close>

subsection \<open>Notions the statements use\<close>

text \<open>
  The selection rule in the words of the specification: keep the identifier held when
  selection starts if the availability set has it; otherwise take the first member of
  the ranking that the set has; otherwise keep the identifier.
\<close>

definition spec_selected :: "string list \<Rightarrow> string \<Rightarrow> string set \<Rightarrow> string" where
  "spec_selected ranking current avail =
     (if current \<in> avail then current
      else (case find (\<lambda>m. m \<in> avail) ranking of Some m \<Rightarrow> m | None \<Rightarrow> current))"

text \<open>
  What \<open>__init__\<close> establishes and every operation keeps: a gateway without a token
  has an empty availability set.
\<close>

definition gateway_inv :: "gateway \<Rightarrow> bool" where
  "gateway_inv g = (truthy (token g) \<or> available_models g = {})"

text \<open>The availability set a catalogue answer stands for.\<close>

definition catalog_models :: "catalog_outcome \<Rightarrow> string set" where
  "catalog_models c = (case c of Catalog resources \<Rightarrow> supported resources | CatalogError \<Rightarrow> {})"

text \<open>A service whose catalogue does not change: every answer still to come is \<open>c\<close>.\<close>

definition stable_catalog :: "catalog_outcome \<Rightarrow> world \<Rightarrow> bool" where
  "stable_catalog c w = (\<forall>r \<in> set (catalog_replies w). r = c)"

subsection \<open>Concrete gateways and services\<close>

text \<open>
  A configured gateway whose service first lists only the default model, then, on the
  two refreshes that follow two rejections, a different single model each time.
\<close>

definition c1_settings :: settings where
  "c1_settings = \<lparr>watsonx_api_key = Some ''key'', watsonx_project_id = Some ''project'',
                   watsonx_url = None, watsonx_model_id = None\<rparr>"

definition c1_world :: world where
  "c1_world = \<lparr>iam_reply = Some ''bearer'',
     gen_replies = [HTTPError (Some (404, ''model_not_supported'')),
                    HTTPError (Some (404, ''model_not_supported'')),
                    Generated ''tips''],
     catalog_replies = [Catalog [Some ''ibm/granite-3-8b-instruct''],
                        Catalog [Some ''ibm/granite-3-3-8b-instruct''],
                        Catalog [Some ''ibm/granite-3-2-8b-instruct'']],
     posted = [], catalog_calls = 0\<rparr>"

text \<open>
  A gateway on the default model and a service that rejects it twice while its
  catalogue, the same at every refresh, lists one other model.
\<close>

definition w1_gateway :: gateway where
  "w1_gateway = \<lparr>api_key = ''key'', project_id = ''project'',
     url = ''https://us-south.ml.cloud.ibm.com'',
     model_id = ''ibm/granite-3-8b-instruct'', token = Some ''bearer'',
     available_models = {''ibm/granite-3-8b-instruct''}\<rparr>"

definition w1_rejection :: gen_outcome where
  "w1_rejection = HTTPError (Some (404, ''model_not_supported''))"

definition w1_catalog :: catalog_outcome where
  "w1_catalog = Catalog [Some ''ibm/granite-3-3-8b-instruct'']"

definition w1_world :: world where
  "w1_world = \<lparr>iam_reply = Some ''bearer'',
     gen_replies = [w1_rejection, w1_rejection, Generated ''tips''],
     catalog_replies = [w1_catalog, w1_catalog, w1_catalog],
     posted = [], catalog_calls = 0\<rparr>"

text \<open>
  A service that lists the second-ranked model alone when the gateway starts, and both
  that model and the configured (default) one at the next refresh.
\<close>

definition c2_settings :: settings where
  "c2_settings = \<lparr>watsonx_api_key = Some ''key'', watsonx_project_id = Some ''project'',
                   watsonx_url = None, watsonx_model_id = None\<rparr>"

definition c2_world :: world where
  "c2_world = \<lparr>iam_reply = Some ''bearer'',
     gen_replies = [],
     catalog_replies = [Catalog [Some ''ibm/granite-3-3-8b-instruct''],
                        Catalog [Some ''ibm/granite-3-8b-instruct'',
                                 Some ''ibm/granite-3-3-8b-instruct'']],
     posted = [], catalog_calls = 0\<rparr>"

text \<open>The gateway of the specification's example, with a token and no project.\<close>

definition w2_gateway :: gateway where
  "w2_gateway = \<lparr>api_key = ''key'', project_id = '''', url = '''',
     model_id = ''m1'', token = Some ''bearer'', available_models = {''m2'', ''m3''}\<rparr>"

definition w2_world :: world where
  "w2_world = \<lparr>iam_reply = None, gen_replies = [], catalog_replies = [],
     posted = [], catalog_calls = 0\<rparr>"

text \<open>A gateway that holds no token: every generation call yields \<open>None\<close>.\<close>

definition c7_gateway :: gateway where
  "c7_gateway = \<lparr>api_key = '''', project_id = ''project'', url = '''',
     model_id = ''ibm/granite-3-8b-instruct'', token = None, available_models = {}\<rparr>"

definition c7_world :: world where
  "c7_world = \<lparr>iam_reply = None, gen_replies = [], catalog_replies = [],
     posted = [], catalog_calls = 0\<rparr>"

section \<open>Notions and concrete inputs for identity and access\<close>

text \<open>
  The instant a token issued at \<open>issued_at\<close> expires: the time to live is the one given,
  and the configured default when none or a zero one is given.
\<close>

definition token_expiry :: "jwt_config \<Rightarrow> int option \<Rightarrow> int \<Rightarrow> int" where
  "token_expiry cfg ttl issued_at =
     issued_at + (case ttl of
                    None \<Rightarrow> 60 * ACCESS_TOKEN_EXPIRE_MINUTES cfg
                  | Some d \<Rightarrow> if d = 0 then 60 * ACCESS_TOKEN_EXPIRE_MINUTES cfg else d)"

text \<open>A payload that is not past its expiry at \<open>now\<close>.\<close>

definition unexpired :: "claims \<Rightarrow> int \<Rightarrow> bool" where
  "unexpired payload now =
     (case payload ''exp'' of
        None \<Rightarrow> True
      | Some (JInt exp) \<Rightarrow> now \<le> exp
      | Some (JStr s) \<Rightarrow> False)"

text \<open>
  Deactivating a subject: the active flag of its row is cleared. No function of the
  sources does this; it is a change made to the store from outside.
\<close>

definition deactivate :: "int \<Rightarrow> database \<Rightarrow> database" where
  "deactivate uid db =
     db\<lparr>rows := map (\<lambda>u. if user_id u = uid then u\<lparr>is_active := False\<rparr> else u) (rows db)\<rparr>"

text \<open>The lookup of \<open>authenticate_user\<close>: the first row whose phone number or email is
  the identifier.\<close>

definition lookup :: "database \<Rightarrow> string \<Rightarrow> user option" where
  "lookup db identifier =
     find (\<lambda>u. phone_number u = identifier \<or> email u = Some identifier) (rows db)"

text \<open>A configuration, a payload as the login handler builds it, and a library that
  makes no further check.\<close>

definition x_cfg :: jwt_config where
  "x_cfg = \<lparr>SECRET_KEY = ''secret'', ALGORITHM = ''HS256'', ACCESS_TOKEN_EXPIRE_MINUTES = 30\<rparr>"

definition x_data :: claims where
  "x_data = [''sub'' \<mapsto> JStr ''1'', ''user_type'' \<mapsto> JStr ''user'',
             ''phone'' \<mapsto> JStr ''555-0100'']"

definition x_checks :: "claims \<Rightarrow> int \<Rightarrow> bool" where
  "x_checks payload now = True"

text \<open>
  A password library for the examples: the hash of a password is the password behind a
  fixed prefix, and a string without the prefix is no hash.
\<close>

definition x_ctx :: crypt_context where
  "x_ctx = \<lparr>ctx_hash = (\<lambda>password. Inr (''$2b$'' @ password)),
            ctx_verify = (\<lambda>password h.
               if starts_with ''$2b$'' h then Inr (h = ''$2b$'' @ password)
               else Inl (Exception ''hash could not be identified''))\<rparr>"

text \<open>A seeded active citizen, and a store that holds it.\<close>

definition x_user :: user where
  "x_user = \<lparr>user_id = 1, name = ''Asha'', phone_number = ''555-0100'',
     email = Some ''asha@example.org'', password_hash = Some ''$2b$correct'',
     address = None, department = None, position = None, feedback_route = None,
     user_type = RoleEnum USER, is_active = True, is_approved = True,
     created_at = 0, last_login = None\<rparr>"

definition x_db :: database where
  "x_db = \<lparr>rows = [x_user], next_id = 2\<rparr>"

text \<open>The citizen a successful registration adds to that store at the instant 1000.\<close>

definition x_new_user :: user where
  "x_new_user = \<lparr>user_id = 2, name = ''Ravi'', phone_number = ''555-0111'',
     email = Some ''ravi@example.org'', password_hash = Some ''$2b$secret1'',
     address = None, department = None, position = None, feedback_route = None,
     user_type = RoleEnum USER, is_active = True, is_approved = True,
     created_at = 1000, last_login = None\<rparr>"

text \<open>A seeded active authority, and a store that holds it behind the citizen.\<close>

definition x_clerk :: user where
  "x_clerk = \<lparr>user_id = 2, name = ''Bela'', phone_number = ''555-0200'',
     email = Some ''bela@example.org'', password_hash = Some ''$2b$clerkpw'',
     address = None, department = None, position = Some ''Clerk'',
     feedback_route = Some ''roads'', user_type = RoleEnum AUTHORITY,
     is_active = True, is_approved = True, created_at = 0, last_login = None\<rparr>"

definition x_db2 :: database where
  "x_db2 = \<lparr>rows = [x_user, x_clerk], next_id = 3\<rparr>"

text \<open>The citizen with a stored hash that is a string but no hash, and its store.\<close>

definition x_legacy :: user where
  "x_legacy = x_user\<lparr>password_hash := Some ''plaintext''\<rparr>"

definition x_legacy_db :: database where
  "x_legacy_db = \<lparr>rows = [x_legacy], next_id = 2\<rparr>"

text \<open>The authority a successful registration adds to \<open>x_db\<close> at the instant 1000.\<close>

definition x_new_authority :: user where
  "x_new_authority = \<lparr>user_id = 2, name = ''Meera'', phone_number = ''555-0222'',
     email = Some ''meera@example.org'', password_hash = Some ''$2b$secret2'',
     address = None, department = None, position = Some ''Engineer'',
     feedback_route = Some ''roads'', user_type = RoleEnum AUTHORITY,
     is_active = True, is_approved = True, created_at = 1000, last_login = None\<rparr>"



text \<open>A subject whose stored role is a string outside the enumeration.\<close>

definition x_stranger :: user where
  "x_stranger = x_user\<lparr>user_type := RoleStr ''admin''\<rparr>"

section \<open>Properties of the gateway\<close>

subsection \<open>Termination of the retry\<close>

lemma post_generation_HTTPError:
  "post_generation w mid = (HTTPError resp, w1) \<Longrightarrow>
     length (gen_replies w1) < length (gen_replies w)"
  by (auto simp: post_generation_def split: list.splits)

lemma load_available_models_gen_replies:
  "load_available_models w = (ms, w') \<Longrightarrow> gen_replies w' = gen_replies w"
  by (auto simp: load_available_models_def get_catalog_def
           split: list.splits catalog_outcome.splits)

lemma select_supported_model_gen_replies:
  "select_supported_model ranking fr g w = (g', w') \<Longrightarrow> gen_replies w' = gen_replies w"
  by (auto simp: select_supported_model_def Let_def
           split: if_splits prod.splits option.splits
           dest: load_available_models_gen_replies)

termination make_request
  apply (relation "measure (\<lambda>(g, w, prompt, max_tokens). length (gen_replies w))")
   apply simp
  apply (auto dest!: post_generation_HTTPError [OF sym]
                     select_supported_model_gen_replies [OF sym])
  done

subsection \<open>Selection\<close>

lemma find_never [simp]: "find (\<lambda>m. False) xs = None"
  by (induction xs) auto

lemma select_supported_model_selected:
  assumes "gateway_inv g" "select_supported_model ranking fr g w = (g', w')"
  shows "model_id g' = spec_selected ranking (model_id g) (available_models g') \<and>
         gateway_inv g' \<and>
         available_models g' =
           (if truthy (token g) \<and> fr then fst (load_available_models w)
            else available_models g)"
  using assms
  by (auto simp: select_supported_model_def spec_selected_def gateway_inv_def Let_def
           split: if_splits prod.splits option.splits)

lemma init_selected:
  assumes "init st w = (g', w')"
  shows "model_id g' =
           spec_selected FALLBACK_MODEL_ORDER
             (strip (py_or (watsonx_model_id st) DEFAULT_MODEL_ID)) (available_models g') \<and>
         gateway_inv g'"
proof -
  define g0 where "g0 = \<lparr>api_key = py_or (watsonx_api_key st) [],
                project_id = py_or (watsonx_project_id st) [],
                url = (case watsonx_url st of
                         None \<Rightarrow> ''https://us-south.ml.cloud.ibm.com''
                       | Some u \<Rightarrow> (if u = [] then ''https://us-south.ml.cloud.ibm.com''
                                   else rstrip_slash u)),
                model_id = strip (py_or (watsonx_model_id st) DEFAULT_MODEL_ID),
                token = None,
                available_models = {}\<rparr>"
  define g1 where "g1 = g0\<lparr>token := get_iam_token g0 w\<rparr>"
  define lw where "lw = (if truthy (token g1) then load_available_models w else ({}, w))"
  define g2 where "g2 = g1\<lparr>available_models := fst lw\<rparr>"
  have i: "init st w = select_supported_model FALLBACK_MODEL_ORDER False g2 (snd lw)"
    by (simp add: init_def Let_def g0_def g1_def lw_def g2_def split: prod.splits)
  have m: "model_id g2 = strip (py_or (watsonx_model_id st) DEFAULT_MODEL_ID)"
    by (simp add: g2_def g1_def g0_def)
  have inv: "gateway_inv g2"
    by (simp add: gateway_inv_def g2_def lw_def)
  from select_supported_model_selected [OF inv] i assms m show ?thesis by metis
qed

subsection \<open>One recovery, and what a stable catalogue bounds\<close>

lemma load_available_models_stable:
  assumes "stable_catalog c w" "load_available_models w = (ms, w')"
  shows "(ms = {} \<or> ms = catalog_models c) \<and> stable_catalog c w' \<and>
         catalog_calls w' = Suc (catalog_calls w) \<and> posted w' = posted w \<and>
         gen_replies w' = gen_replies w"
  using assms
  by (auto simp: load_available_models_def get_catalog_def stable_catalog_def
                 catalog_models_def
           split: list.splits catalog_outcome.splits)

lemma select_refresh:
  assumes "truthy (token g)" "select_supported_model ranking True g w = (g2, w2)"
  shows "\<exists>ms. load_available_models w = (ms, w2) \<and> available_models g2 = ms \<and>
          token g2 = token g \<and> project_id g2 = project_id g \<and>
          (model_id g2 = model_id g \<or> (model_id g2 \<in> ms \<and> model_id g \<notin> ms))"
  using assms
  by (auto simp: select_supported_model_def Let_def find_Some_iff
           split: if_splits prod.splits option.splits)

lemma select_refresh_settled:
  assumes "truthy (token g)" "select_supported_model ranking True g w = (g2, w2)"
          "stable_catalog c w" "model_id g \<in> catalog_models c"
  shows "model_id g2 = model_id g \<and> catalog_calls w2 = Suc (catalog_calls w) \<and>
         posted w2 = posted w"
proof -
  from select_refresh [OF assms(1,2)] obtain ms where
    l: "load_available_models w = (ms, w2)" and
    m: "model_id g2 = model_id g \<or> (model_id g2 \<in> ms \<and> model_id g \<notin> ms)" by blast
  from load_available_models_stable [OF assms(3) l] assms(4) m show ?thesis by auto
qed

lemma post_generation_posted:
  "post_generation w mid = (r, w1) \<Longrightarrow>
     posted w1 = posted w @ [mid] \<and> catalog_calls w1 = catalog_calls w \<and>
     catalog_replies w1 = catalog_replies w"
  by (auto simp: post_generation_def split: list.splits)

text \<open>
  Once the active model is in the (stable) catalogue, a call posts once and refreshes at
  most once: a rejection re-selects the same model, and the call gives up.
\<close>

lemma make_request_settled:
  assumes "stable_catalog c w" "model_id g \<in> catalog_models c"
          "make_request g w prompt max_tokens = (r, g', w')"
  shows "length (posted w') \<le> length (posted w) + 1 \<and>
         catalog_calls w' \<le> catalog_calls w + 1"
proof (cases "truthy (token g) \<and> project_id g \<noteq> []")
  case False
  with assms(3) show ?thesis by (auto split: if_splits)
next
  case True
  obtain o1 w1 where
    p: "post_generation w (if model_id g = [] then DEFAULT_MODEL_ID else model_id g) = (o1, w1)"
    by (cases "post_generation w (if model_id g = [] then DEFAULT_MODEL_ID else model_id g)")
  note pp = post_generation_posted [OF p]
  have st1: "stable_catalog c w1" using assms(1) pp by (simp add: stable_catalog_def)
  show ?thesis
  proof (cases o1)
    case (Generated t)
    with assms(3) True p pp show ?thesis by simp
  next
    case OtherError
    with assms(3) True p pp show ?thesis by simp
  next
    case (HTTPError resp)
    show ?thesis
    proof (cases "model_not_supported resp")
      case False
      with assms(3) True p pp HTTPError show ?thesis by simp
    next
      case ns: True
      obtain g2 w2 where s: "select_supported_model FALLBACK_MODEL_ORDER True g w1 = (g2, w2)"
        by (cases "select_supported_model FALLBACK_MODEL_ORDER True g w1")
      from select_refresh_settled [OF _ s st1 assms(2)] True
      have "model_id g2 = model_id g" "catalog_calls w2 = Suc (catalog_calls w1)"
           "posted w2 = posted w1"
        by auto
      with assms(3) True p pp HTTPError ns s show ?thesis by simp
    qed
  qed
qed

lemma make_request_recovery_step:
  assumes "truthy (token g)" "project_id g \<noteq> []"
      "gen_replies w = HTTPError resp # rest" "model_not_supported resp"
  shows "(case select_supported_model FALLBACK_MODEL_ORDER True g
                 (w\<lparr>gen_replies := rest,
                    posted := posted w @
                      [if model_id g = [] then DEFAULT_MODEL_ID else model_id g]\<rparr>) of
            (g2, w2) \<Rightarrow>
              catalog_calls w2 = Suc (catalog_calls w) \<and>
              make_request g w prompt max_tokens =
                (if model_id g2 \<noteq> model_id g then make_request g2 w2 prompt max_tokens
                 else (None, g2, w2)))"
proof -
  let ?mid = "if model_id g = [] then DEFAULT_MODEL_ID else model_id g"
  let ?w1 = "w\<lparr>gen_replies := rest, posted := posted w @ [?mid]\<rparr>"
  have p: "post_generation w ?mid = (HTTPError resp, ?w1)"
    using assms(3) by (simp add: post_generation_def)
  obtain g2 w2 where s: "select_supported_model FALLBACK_MODEL_ORDER True g ?w1 = (g2, w2)"
    by (cases "select_supported_model FALLBACK_MODEL_ORDER True g ?w1")
  from select_refresh [OF assms(1) s] obtain ms where
    l: "load_available_models ?w1 = (ms, w2)"
    by blast
  then have c: "catalog_calls w2 = Suc (catalog_calls w)"
    by (auto simp: load_available_models_def get_catalog_def
             split: list.splits catalog_outcome.splits)
  have "make_request g w prompt max_tokens =
          (if model_id g2 \<noteq> model_id g then make_request g2 w2 prompt max_tokens
           else (None, g2, w2))"
    using assms(1,2,4) p s by (subst make_request.simps) simp
  with c s show ?thesis by simp
qed

lemma make_request_stable_bound:
  assumes "stable_catalog c w" "make_request g w prompt max_tokens = (r, g', w')"
  shows "length (posted w') \<le> length (posted w) + 2 \<and>
         catalog_calls w' \<le> catalog_calls w + 2"
proof (cases "truthy (token g) \<and> project_id g \<noteq> []")
  case False
  with assms(2) show ?thesis by (auto split: if_splits)
next
  case True
  obtain o1 w1 where
    p: "post_generation w (if model_id g = [] then DEFAULT_MODEL_ID else model_id g) = (o1, w1)"
    by (cases "post_generation w (if model_id g = [] then DEFAULT_MODEL_ID else model_id g)")
  note pp = post_generation_posted [OF p]
  have st1: "stable_catalog c w1" using assms(1) pp by (simp add: stable_catalog_def)
  show ?thesis
  proof (cases o1)
    case (Generated t)
    with assms(2) True p pp show ?thesis by simp
  next
    case OtherError
    with assms(2) True p pp show ?thesis by simp
  next
    case (HTTPError resp)
    show ?thesis
    proof (cases "model_not_supported resp")
      case False
      with assms(2) True p pp HTTPError show ?thesis by simp
    next
      case ns: True
      obtain g2 w2 where s: "select_supported_model FALLBACK_MODEL_ORDER True g w1 = (g2, w2)"
        by (cases "select_supported_model FALLBACK_MODEL_ORDER True g w1")
      from select_refresh [OF _ s] True obtain ms where
        l: "load_available_models w1 = (ms, w2)" and
        m: "model_id g2 = model_id g \<or> (model_id g2 \<in> ms \<and> model_id g \<notin> ms)" by blast
      note ls = load_available_models_stable [OF st1 l]
      show ?thesis
      proof (cases "model_id g2 = model_id g")
        case same: True
        with assms(2) True p pp HTTPError ns s ls show ?thesis by simp
      next
        case changed: False
        with m ls have in_c: "model_id g2 \<in> catalog_models c" by auto
        from assms(2) True p HTTPError ns s changed
        have r: "make_request g2 w2 prompt max_tokens = (r, g', w')" by simp
        from make_request_settled [OF _ in_c r] ls pp show ?thesis by simp
      qed
    qed
  qed
qed

section \<open>Properties of identity and access\<close>

subsection \<open>Lookups\<close>

lemma find_held: "\<exists>x \<in> set xs. p x \<Longrightarrow> find p xs \<noteq> None"
  by (auto simp: find_None_iff)

lemma find_Some_member: "find p xs = Some x \<Longrightarrow> x \<in> set xs \<and> p x"
  by (induction xs) (auto split: if_splits)

lemma update_first_split:
  "find p xs = Some x \<Longrightarrow>
     \<exists>pre post. xs = pre @ x # post \<and> (\<forall>y \<in> set pre. \<not> p y) \<and>
                update_first p f xs = pre @ f x # post"
proof (induction xs)
  case Nil
  then show ?case by simp
next
  case (Cons a xs)
  show ?case
  proof (cases "p a")
    case True
    with Cons.prems have "a = x" by simp
    with True have "a # xs = [] @ x # xs \<and> (\<forall>y \<in> set []. \<not> p y) \<and>
                    update_first p f (a # xs) = [] @ f x # xs" by simp
    then show ?thesis by blast
  next
    case False
    with Cons.prems have "find p xs = Some x" by simp
    from Cons.IH [OF this] obtain pre post where
      "xs = pre @ x # post" "\<forall>y \<in> set pre. \<not> p y" "update_first p f xs = pre @ f x # post"
      by blast
    with False have "a # xs = (a # pre) @ x # post \<and> (\<forall>y \<in> set (a # pre). \<not> p y) \<and>
                     update_first p f (a # xs) = (a # pre) @ f x # post" by simp
    then show ?thesis by blast
  qed
qed

subsection \<open>Registration\<close>

lemma register_user_phone_conflict:
  assumes "\<exists>u \<in> set (rows db). phone_number u = ph"
  shows "register_user ctx db n ph pw em ad now =
           Inr (Error ''Phone number already registered'', db)"
  using find_held [OF assms] by (simp add: register_user_def)

lemma register_authority_phone_conflict:
  assumes "\<exists>u \<in> set (rows db). phone_number u = ph"
  shows "register_authority ctx db n pos fr ph aem pw now =
           Inr (Error ''Phone number already registered'', db)"
  using find_held [OF assms] by (simp add: register_authority_def)

lemma register_user_email_conflict:
  assumes "truthy em" "\<exists>u \<in> set (rows db). email u = em"
  shows "\<exists>msg. register_user ctx db n ph pw em ad now = Inr (Error msg, db)"
  using find_held [OF assms(2)] assms(1) by (simp add: register_user_def)

lemma register_authority_email_conflict:
  assumes "\<exists>u \<in> set (rows db). email u = Some aem"
  shows "\<exists>msg. register_authority ctx db n pos fr ph aem pw now = Inr (Error msg, db)"
  using find_held [OF assms] by (simp add: register_authority_def)

lemma register_user_success:
  assumes "register_user ctx db n ph pw em ad now = Inr (Registered u, db')"
  shows "(\<exists>h. ctx_hash ctx pw = Inr h \<and> password_hash u = Some h) \<and>
         is_active u \<and> user_type u = RoleEnum USER \<and> phone_number u = ph \<and>
         email u = em \<and> rows db' = rows db @ [u] \<and>
         register_user ctx db' n ph pw em ad now' =
           Inr (Error ''Phone number already registered'', db')"
proof -
  from assms have 1:
    "(\<exists>h. ctx_hash ctx pw = Inr h \<and> password_hash u = Some h) \<and>
     is_active u \<and> user_type u = RoleEnum USER \<and> phone_number u = ph \<and>
     email u = em \<and> rows db' = rows db @ [u]"
    by (auto simp: register_user_def db_add_def Let_def get_password_hash_def
             split: if_splits sum.splits)
  then have "\<exists>x \<in> set (rows db'). phone_number x = ph" by simp
  from register_user_phone_conflict [OF this] 1 show ?thesis by blast
qed

lemma register_authority_success:
  assumes "register_authority ctx db n pos fr ph aem pw now = Inr (Registered u, db')"
  shows "(\<exists>h. ctx_hash ctx pw = Inr h \<and> password_hash u = Some h) \<and>
         is_active u \<and> user_type u = RoleEnum AUTHORITY \<and> phone_number u = ph \<and>
         email u = Some aem \<and> rows db' = rows db @ [u] \<and>
         register_authority ctx db' n pos fr ph aem pw now' =
           Inr (Error ''Phone number already registered'', db')"
proof -
  from assms have 1:
    "(\<exists>h. ctx_hash ctx pw = Inr h \<and> password_hash u = Some h) \<and>
     is_active u \<and> user_type u = RoleEnum AUTHORITY \<and> phone_number u = ph \<and>
     email u = Some aem \<and> rows db' = rows db @ [u]"
    by (auto simp: register_authority_def db_add_def Let_def get_password_hash_def
             split: if_splits sum.splits)
  then have "\<exists>x \<in> set (rows db'). phone_number x = ph" by simp
  from register_authority_phone_conflict [OF this] 1 show ?thesis by blast
qed

lemma register_user_succeeds:
  assumes "\<not> (\<exists>u \<in> set (rows db). phone_number u = ph)"
          "\<not> (truthy em \<and> (\<exists>u \<in> set (rows db). email u = em))"
          "ctx_hash ctx pw = Inr h"
  shows "register_user ctx db n ph pw em ad now =
           Inr (Registered
                  \<lparr>user_id = next_id db, name = n, phone_number = ph, email = em,
                   password_hash = Some h, address = ad, department = None,
                   position = None, feedback_route = None, user_type = RoleEnum USER,
                   is_active = True, is_approved = True, created_at = now,
                   last_login = None\<rparr>,
                \<lparr>rows = rows db @
                   [\<lparr>user_id = next_id db, name = n, phone_number = ph, email = em,
                     password_hash = Some h, address = ad, department = None,
                     position = None, feedback_route = None, user_type = RoleEnum USER,
                     is_active = True, is_approved = True, created_at = now,
                     last_login = None\<rparr>],
                 next_id = next_id db + 1\<rparr>)"
proof -
  from assms(1) have p: "find (\<lambda>u. phone_number u = ph) (rows db) = None"
    by (simp add: find_None_iff)
  from assms(2) have e: "\<not> truthy em \<or> find (\<lambda>u. email u = em) (rows db) = None"
    by (auto simp: find_None_iff)
  show ?thesis
    using e by (auto simp: register_user_def p get_password_hash_def assms(3) db_add_def Let_def)
qed

lemma register_authority_succeeds:
  assumes "\<not> (\<exists>u \<in> set (rows db). phone_number u = ph)"
          "\<not> (\<exists>u \<in> set (rows db). email u = Some aem)"
          "ctx_hash ctx pw = Inr h"
  shows "register_authority ctx db n pos fr ph aem pw now =
           Inr (Registered
                  \<lparr>user_id = next_id db, name = n, phone_number = ph, email = Some aem,
                   password_hash = Some h, address = None, department = None,
                   position = Some pos, feedback_route = Some fr,
                   user_type = RoleEnum AUTHORITY,
                   is_active = True, is_approved = True, created_at = now,
                   last_login = None\<rparr>,
                \<lparr>rows = rows db @
                   [\<lparr>user_id = next_id db, name = n, phone_number = ph, email = Some aem,
                     password_hash = Some h, address = None, department = None,
                     position = Some pos, feedback_route = Some fr,
                     user_type = RoleEnum AUTHORITY,
                     is_active = True, is_approved = True, created_at = now,
                     last_login = None\<rparr>],
                 next_id = next_id db + 1\<rparr>)"
proof -
  from assms(1) have p: "find (\<lambda>u. phone_number u = ph) (rows db) = None"
    by (simp add: find_None_iff)
  from assms(2) have e: "find (\<lambda>u. email u = Some aem) (rows db) = None"
    by (simp add: find_None_iff)
  show ?thesis
    by (simp add: register_authority_def p e get_password_hash_def assms(3) db_add_def Let_def)
qed

lemma register_hash_raises:
  assumes "\<not> (\<exists>u \<in> set (rows db). phone_number u = ph)" "ctx_hash ctx pw = Inl e"
  shows "(\<not> (truthy em \<and> (\<exists>u \<in> set (rows db). email u = em)) \<longrightarrow>
            register_user ctx db n ph pw em ad now = Inl e) \<and>
         (\<not> (\<exists>u \<in> set (rows db). email u = Some aem) \<longrightarrow>
            register_authority ctx db n pos fr ph aem pw now = Inl e)"
  using assms
  by (auto simp: register_user_def register_authority_def get_password_hash_def find_None_iff)

subsection \<open>Authentication\<close>

text \<open>\<open>authenticate_user\<close>, branch by branch.\<close>

lemma authenticate_user_cases:
  "authenticate_user ctx db ident pw now =
     (case lookup db ident of
        None \<Rightarrow> Inr (None, db)
      | Some u \<Rightarrow>
          (case password_hash u of
             None \<Rightarrow> Inr (None, db)
           | Some h \<Rightarrow>
               (case ctx_verify ctx pw h of
                  Inl e \<Rightarrow> Inl e
                | Inr False \<Rightarrow> Inr (None, db)
                | Inr True \<Rightarrow>
                    if is_active u
                    then Inr (Some (u\<lparr>last_login := Some now\<rparr>),
                              db\<lparr>rows := update_first
                                   (\<lambda>u. phone_number u = ident \<or> email u = Some ident)
                                   (\<lambda>_. u\<lparr>last_login := Some now\<rparr>) (rows db)\<rparr>)
                    else Inr (None, db))))"
  by (auto simp: authenticate_user_def lookup_def Let_def verify_password_def
           split: option.splits sum.splits bool.splits)

subsection \<open>Tokens\<close>

lemma verify_created:
  "verify_token cfg checks (create_access_token cfg data ttl t0) now =
     Inr (if token_expiry cfg ttl t0 < now \<or>
             \<not> checks (data(''exp'' \<mapsto> JInt (token_expiry cfg ttl t0))) now
          then None
          else Some (data(''exp'' \<mapsto> JInt (token_expiry cfg ttl t0))))"
  by (simp add: verify_token_def create_access_token_def jwt_encode_def jwt_decode_def
                token_expiry_def Let_def)

lemma verify_token_returns: "\<exists>r. verify_token cfg checks tok now = Inr r"
  by (auto simp: verify_token_def jwt_decode_def
           split: jwt.splits option.splits jval.splits sum.splits)

lemma verify_token_Some_iff:
  "verify_token cfg checks tok now = Inr (Some payload) \<longleftrightarrow>
     tok = Signed (ALGORITHM cfg) (SECRET_KEY cfg) payload \<and> unexpired payload now \<and>
     checks payload now"
  by (auto simp: verify_token_def jwt_decode_def unexpired_def
           split: jwt.splits option.splits jval.splits sum.splits if_splits)

subsection \<open>The gate and deactivation\<close>

text \<open>
  The gate in front of every protected handler does read the store: a subject whose
  active flag is cleared is turned away there, whatever its token.
\<close>

lemma get_current_user_inactive:
  assumes "get_current_user cfg checks credentials db now = Inr u"
  shows "is_active u \<and> u \<in> set (rows db)"
  using assms
  by (auto simp: get_current_user_def
           split: option.splits sum.splits if_splits dest: find_Some_member)

lemma find_deactivate_same:
  "find (\<lambda>x. user_id x = n) (rows (deactivate n db)) =
     map_option (\<lambda>u. u\<lparr>is_active := False\<rparr>) (find (\<lambda>x. user_id x = n) (rows db))"
proof -
  have "find (\<lambda>x. user_id x = n)
          (map (\<lambda>u. if user_id u = n then u\<lparr>is_active := False\<rparr> else u) xs) =
        map_option (\<lambda>u. u\<lparr>is_active := False\<rparr>) (find (\<lambda>x. user_id x = n) xs)" for xs
    by (induction xs) auto
  then show ?thesis by (simp add: deactivate_def)
qed

lemma find_deactivate_other:
  assumes "n \<noteq> uid"
  shows "find (\<lambda>x. user_id x = n) (rows (deactivate uid db)) =
         find (\<lambda>x. user_id x = n) (rows db)"
proof -
  have "find (\<lambda>x. user_id x = n)
          (map (\<lambda>u. if user_id u = uid then u\<lparr>is_active := False\<rparr> else u) xs) =
        find (\<lambda>x. user_id x = n) xs" for xs
    using assms by (induction xs) auto
  then show ?thesis by (simp add: deactivate_def)
qed

lemma get_current_user_Inr:
  assumes "get_current_user cfg checks credentials db now = Inr u"
  shows "\<exists>tok payload sub.
           credentials = Some tok \<and> verify_token cfg checks tok now = Inr (Some payload) \<and>
           payload \<noteq> Map.empty \<and> payload ''sub'' = Some sub \<and> \<not> jval_falsy sub \<and>
           jval_int sub = Some (user_id u) \<and>
           find (\<lambda>x. user_id x = user_id u) (rows db) = Some u \<and> is_active u"
  using assms
  by (auto simp: get_current_user_def
           split: option.splits sum.splits if_splits dest: find_Some_member)

lemma get_current_user_deactivated:
  assumes "get_current_user cfg checks credentials db now = Inr u"
  shows "get_current_user cfg checks credentials (deactivate (user_id u) db) now =
           Inl (HTTPException 401 ''User inactive or not found'')"
proof -
  from get_current_user_Inr [OF assms] obtain tok payload sub where
    c: "credentials = Some tok" and v: "verify_token cfg checks tok now = Inr (Some payload)"
    and ne: "payload \<noteq> Map.empty" and s: "payload ''sub'' = Some sub"
    and f: "\<not> jval_falsy sub" and i: "jval_int sub = Some (user_id u)"
    and r: "find (\<lambda>x. user_id x = user_id u) (rows db) = Some u"
    by blast
  show ?thesis
    by (simp add: get_current_user_def c v ne s f i find_deactivate_same r)
qed

lemma get_current_user_other:
  assumes "get_current_user cfg checks credentials db now = Inr u" "uid \<noteq> user_id u"
  shows "get_current_user cfg checks credentials (deactivate uid db) now = Inr u"
proof -
  from get_current_user_Inr [OF assms(1)] obtain tok payload sub where
    c: "credentials = Some tok" and v: "verify_token cfg checks tok now = Inr (Some payload)"
    and ne: "payload \<noteq> Map.empty" and s: "payload ''sub'' = Some sub"
    and f: "\<not> jval_falsy sub" and i: "jval_int sub = Some (user_id u)"
    and r: "find (\<lambda>x. user_id x = user_id u) (rows db) = Some u" and a: "is_active u"
    by blast
  from assms(2) have "user_id u \<noteq> uid" by simp
  from find_deactivate_other [OF this] r
  have "find (\<lambda>x. user_id x = user_id u) (rows (deactivate uid db)) = Some u" by simp
  then show ?thesis
    by (simp add: get_current_user_def c v ne s f i a)
qed

text \<open>The gate on the seeded citizen's token, before and after the citizen is deactivated.\<close>

lemma x_gate:
  "get_current_user x_cfg x_checks (Some (create_access_token x_cfg x_data None 1000))
     x_db 1500 = Inr x_user \<and>
   get_current_user x_cfg x_checks (Some (create_access_token x_cfg x_data None 1000))
     (deactivate 1 x_db) 1500 =
     Inl (HTTPException 401 ''User inactive or not found'')"
proof -
  have e: "x_data(''exp'' \<mapsto> JInt 2800) \<noteq> Map.empty" by simp
  have s: "(x_data(''exp'' \<mapsto> JInt 2800)) ''sub'' = Some (JStr ''1'')"
    by (simp add: x_data_def)
  have i: "py_int ''1'' = Some 1"
    by (simp add: py_int_def strip_def py_space_def is_digit_def digits_value_def)
  have v: "verify_token x_cfg x_checks (create_access_token x_cfg x_data None 1000) 1500 =
             Inr (Some (x_data(''exp'' \<mapsto> JInt 2800)))"
    by (simp add: verify_created token_expiry_def x_checks_def x_cfg_def)
  show ?thesis
    unfolding get_current_user_def
    by (simp add: v e s i del: fun_upd_apply)
       (simp add: x_db_def x_user_def deactivate_def)
qed

section \<open>Claims about the gateway\<close>

subsection \<open>C1: recovery after a model-not-supported rejection\<close>

lemma c1_init:
  "init c1_settings c1_world =
     (\<lparr>api_key = ''key'', project_id = ''project'',
        url = ''https://us-south.ml.cloud.ibm.com'',
        model_id = ''ibm/granite-3-8b-instruct'', token = Some ''bearer'',
        available_models = {''ibm/granite-3-8b-instruct''}\<rparr>,
      c1_world\<lparr>catalog_replies := [Catalog [Some ''ibm/granite-3-3-8b-instruct''],
                                     Catalog [Some ''ibm/granite-3-2-8b-instruct'']],
                catalog_calls := 1\<rparr>)"
  by (simp add: init_def c1_settings_def c1_world_def py_or_def strip_def
                DEFAULT_MODEL_ID_def py_space_def get_iam_token_def truthy_def
                load_available_models_def get_catalog_def select_supported_model_def)

text \<open>
  C1 as stated fails: one caller-initiated call can run more than one
  re-selection-and-retry cycle. Here the gateway built by \<open>__init__\<close> is rejected on the
  default model, refreshes and retries on the second-ranked model, is rejected again,
  refreshes and retries on the third-ranked model, and returns that call's text: three
  generation POSTs and two refreshes after the one of \<open>__init__\<close> (three in all).
\<close>

theorem make_request_two_cycles:
  "fst (make_request (fst (init c1_settings c1_world)) (snd (init c1_settings c1_world))
          ''hello'' 500) = Some ''tips'' \<and>
   posted (snd (snd (make_request (fst (init c1_settings c1_world))
                       (snd (init c1_settings c1_world)) ''hello'' 500))) =
     [''ibm/granite-3-8b-instruct'', ''ibm/granite-3-3-8b-instruct'',
      ''ibm/granite-3-2-8b-instruct''] \<and>
   catalog_calls (snd (init c1_settings c1_world)) = 1 \<and>
   catalog_calls (snd (snd (make_request (fst (init c1_settings c1_world))
                              (snd (init c1_settings c1_world)) ''hello'' 500))) = 3"
  unfolding c1_init fst_conv snd_conv
  by (simp add: c1_world_def make_request.simps truthy_def post_generation_def
                model_not_supported_def select_supported_model_def
                load_available_models_def get_catalog_def FALLBACK_MODEL_ORDER_def)

text \<open>
  C1 as amended. A call that holds a token and a project id and whose generation POST is
  rejected with a 404 carrying \<open>model_not_supported\<close> refreshes the availability set
  once (one catalogue GET), re-runs selection, and then is the same call made again with
  the new gateway if the active model identifier changed, and yields \<open>None\<close> if it did
  not. The call made again is a full call: it can recover in the same way. When the
  catalogue gives the same answer at every refresh, one caller-initiated call sends at
  most two generation POSTs and makes at most two refreshes, that is at most one retry.
\<close>

theorem make_request_recovery:
  "(truthy (token g) \<and> project_id g \<noteq> [] \<and> gen_replies w = HTTPError resp # rest \<and>
    model_not_supported resp \<longrightarrow>
      (case select_supported_model FALLBACK_MODEL_ORDER True g
              (w\<lparr>gen_replies := rest,
                 posted := posted w @
                   [if model_id g = [] then DEFAULT_MODEL_ID else model_id g]\<rparr>) of
         (g2, w2) \<Rightarrow>
           catalog_calls w2 = Suc (catalog_calls w) \<and>
           make_request g w prompt max_tokens =
             (if model_id g2 \<noteq> model_id g then make_request g2 w2 prompt max_tokens
              else (None, g2, w2)))) \<and>
   (stable_catalog c w \<longrightarrow>
      length (posted (snd (snd (make_request g w prompt max_tokens)))) \<le>
        length (posted w) + 2 \<and>
      catalog_calls (snd (snd (make_request g w prompt max_tokens))) \<le>
        catalog_calls w + 2)"
proof (intro conjI impI)
  assume a: "truthy (token g) \<and> project_id g \<noteq> [] \<and> gen_replies w = HTTPError resp # rest \<and>
          model_not_supported resp"
  show "case select_supported_model FALLBACK_MODEL_ORDER True g
              (w\<lparr>gen_replies := rest,
                 posted := posted w @
                   [if model_id g = [] then DEFAULT_MODEL_ID else model_id g]\<rparr>) of
         (g2, w2) \<Rightarrow>
           catalog_calls w2 = Suc (catalog_calls w) \<and>
           make_request g w prompt max_tokens =
             (if model_id g2 \<noteq> model_id g then make_request g2 w2 prompt max_tokens
              else (None, g2, w2))"
    by (rule make_request_recovery_step [of g w resp rest]) (use a in blast)+
next
  assume s: "stable_catalog c w"
  obtain r g' w' where m: "make_request g w prompt max_tokens = (r, g', w')"
    by (cases "make_request g w prompt max_tokens")
  from make_request_stable_bound [OF s m] m
  show "length (posted (snd (snd (make_request g w prompt max_tokens)))) \<le>
          length (posted w) + 2"
    and "catalog_calls (snd (snd (make_request g w prompt max_tokens))) \<le>
          catalog_calls w + 2"
    by simp_all
qed

lemma w1_run:
  "make_request w1_gateway w1_world ''hello'' 500 =
     (None,
      w1_gateway\<lparr>model_id := ''ibm/granite-3-3-8b-instruct'',
                 available_models := {''ibm/granite-3-3-8b-instruct''}\<rparr>,
      w1_world\<lparr>gen_replies := [Generated ''tips''], catalog_replies := [w1_catalog],
               posted := [''ibm/granite-3-8b-instruct'', ''ibm/granite-3-3-8b-instruct''],
               catalog_calls := 2\<rparr>)"
  by (simp add: w1_gateway_def w1_world_def w1_rejection_def w1_catalog_def
                make_request.simps truthy_def post_generation_def
                model_not_supported_def select_supported_model_def
                load_available_models_def get_catalog_def FALLBACK_MODEL_ORDER_def)

theorem make_request_recovery_witness:
  "truthy (token w1_gateway) \<and> project_id w1_gateway \<noteq> [] \<and>
   gen_replies w1_world =
     HTTPError (Some (404, ''model_not_supported'')) # [w1_rejection, Generated ''tips''] \<and>
   model_not_supported (Some (404, ''model_not_supported'')) \<and>
   stable_catalog w1_catalog w1_world \<and>
   fst (make_request w1_gateway w1_world ''hello'' 500) = None \<and>
   length (posted (snd (snd (make_request w1_gateway w1_world ''hello'' 500)))) = 2 \<and>
   catalog_calls (snd (snd (make_request w1_gateway w1_world ''hello'' 500))) = 2"
  using make_request_recovery [of w1_gateway w1_world "Some (404, ''model_not_supported'')"
          "[w1_rejection, Generated ''tips'']" "''hello''" 500 w1_catalog]
  unfolding w1_run
  by (simp add: w1_gateway_def w1_world_def w1_rejection_def truthy_def
                model_not_supported_def stable_catalog_def)

subsection \<open>C2: model selection\<close>

lemma c2_init:
  "init c2_settings c2_world =
     (\<lparr>api_key = ''key'', project_id = ''project'',
        url = ''https://us-south.ml.cloud.ibm.com'',
        model_id = ''ibm/granite-3-3-8b-instruct'', token = Some ''bearer'',
        available_models = {''ibm/granite-3-3-8b-instruct''}\<rparr>,
      c2_world\<lparr>catalog_replies := [Catalog [Some ''ibm/granite-3-8b-instruct'',
                                              Some ''ibm/granite-3-3-8b-instruct'']],
                catalog_calls := 1\<rparr>)"
  by (simp add: init_def c2_settings_def c2_world_def py_or_def strip_def
                DEFAULT_MODEL_ID_def py_space_def get_iam_token_def truthy_def
                load_available_models_def get_catalog_def select_supported_model_def
                FALLBACK_MODEL_ORDER_def)

text \<open>
  C2 as stated fails on a forced refresh: the gateway keeps no record of the configured
  identifier, and selection starts from the identifier that is active. Here the
  configured model (the default) is not listed when the gateway starts, so the
  second-ranked model becomes active; the next forced refresh lists both, the configured
  identifier is in the availability set, and the active identifier stays the
  second-ranked one.
\<close>

theorem forced_refresh_keeps_active_model:
  "strip (py_or (watsonx_model_id c2_settings) DEFAULT_MODEL_ID) = ''ibm/granite-3-8b-instruct'' \<and>
   ''ibm/granite-3-8b-instruct'' \<in>
     available_models (fst (select_supported_model FALLBACK_MODEL_ORDER True
        (fst (init c2_settings c2_world)) (snd (init c2_settings c2_world)))) \<and>
   model_id (fst (select_supported_model FALLBACK_MODEL_ORDER True
        (fst (init c2_settings c2_world)) (snd (init c2_settings c2_world)))) =
     ''ibm/granite-3-3-8b-instruct''"
  unfolding c2_init fst_conv snd_conv
  by (simp add: c2_settings_def c2_world_def py_or_def strip_def DEFAULT_MODEL_ID_def
                py_space_def truthy_def select_supported_model_def
                load_available_models_def get_catalog_def)

text \<open>
  C2 as amended. After model selection runs, the active identifier is the one that was
  active when selection started, if the availability set has it; otherwise the first
  member of the ranking, walked in order, that the set has; and it is unchanged when the
  set is empty or has no ranked member (\<open>spec_selected\<close>). On a forced refresh by a
  gateway that holds a token the availability set is the one just loaded. At
  initialization the identifier selection starts from is the configured one (stripped,
  the default when none is configured). With the ranking \<open>["m1", "m2", "m3"]\<close>, the
  identifier \<open>"m1"\<close> and the availability set \<open>{"m2", "m3"}\<close> the selected model is
  \<open>"m2"\<close>.
\<close>

theorem model_selection:
  "(gateway_inv g \<longrightarrow>
      model_id (fst (select_supported_model ranking fr g w)) =
        spec_selected ranking (model_id g)
          (available_models (fst (select_supported_model ranking fr g w))) \<and>
      gateway_inv (fst (select_supported_model ranking fr g w)) \<and>
      available_models (fst (select_supported_model ranking fr g w)) =
        (if truthy (token g) \<and> fr then fst (load_available_models w)
         else available_models g)) \<and>
   model_id (fst (init st w)) =
     spec_selected FALLBACK_MODEL_ORDER
       (strip (py_or (watsonx_model_id st) DEFAULT_MODEL_ID))
       (available_models (fst (init st w))) \<and>
   gateway_inv (fst (init st w)) \<and>
   model_id (fst (select_supported_model [''m1'', ''m2'', ''m3''] False
       (g\<lparr>model_id := ''m1'', token := Some ''bearer'',
          available_models := {''m2'', ''m3''}\<rparr>) w)) = ''m2''"
proof (intro conjI impI)
  assume inv: "gateway_inv g"
  obtain g' w' where s: "select_supported_model ranking fr g w = (g', w')"
    by (cases "select_supported_model ranking fr g w")
  from select_supported_model_selected [OF inv s] s
  show "model_id (fst (select_supported_model ranking fr g w)) =
          spec_selected ranking (model_id g)
            (available_models (fst (select_supported_model ranking fr g w)))"
    and "gateway_inv (fst (select_supported_model ranking fr g w))"
    and "available_models (fst (select_supported_model ranking fr g w)) =
          (if truthy (token g) \<and> fr then fst (load_available_models w)
           else available_models g)"
    by simp_all
next
  obtain g' w' where i: "init st w = (g', w')" by (cases "init st w")
  from init_selected [OF i] i
  show "model_id (fst (init st w)) =
          spec_selected FALLBACK_MODEL_ORDER
            (strip (py_or (watsonx_model_id st) DEFAULT_MODEL_ID))
            (available_models (fst (init st w)))"
    and "gateway_inv (fst (init st w))"
    by simp_all
next
  show "model_id (fst (select_supported_model [''m1'', ''m2'', ''m3''] False
       (g\<lparr>model_id := ''m1'', token := Some ''bearer'',
          available_models := {''m2'', ''m3''}\<rparr>) w)) = ''m2''"
    by (simp add: select_supported_model_def truthy_def)
qed

theorem model_selection_witness:
  "gateway_inv w2_gateway \<and>
   spec_selected [''m1'', ''m2'', ''m3''] ''m1'' {''m2'', ''m3''} = ''m2'' \<and>
   model_id (fst (select_supported_model [''m1'', ''m2'', ''m3''] False w2_gateway w2_world)) =
     ''m2'' \<and>
   available_models (fst (select_supported_model [''m1'', ''m2'', ''m3''] False
                            w2_gateway w2_world)) = {''m2'', ''m3''}"
  using model_selection [of w2_gateway "[''m1'', ''m2'', ''m3'']" False w2_world]
  by (simp add: w2_gateway_def gateway_inv_def truthy_def spec_selected_def
                select_supported_model_def)

subsection \<open>C7: the convenience wrappers\<close>

text \<open>
  C7 as stated fails in one word: the fallback of the eco-tip wrapper is not a fixed
  string. With a gateway on which every generation call yields \<open>None\<close>, two topics get
  two different fallback texts.
\<close>

theorem eco_tip_fallback_not_fixed:
  "fst (make_request c7_gateway c7_world (generate_eco_tip_prompt ''water'') 200) = None \<and>
   fst (make_request c7_gateway c7_world (generate_eco_tip_prompt ''energy'') 200) = None \<and>
   fst (generate_eco_tip c7_gateway c7_world ''water'') \<noteq>
   fst (generate_eco_tip c7_gateway c7_world ''energy'')"
  by (simp add: generate_eco_tip_def make_request.simps c7_gateway_def truthy_def py_or_def
                generate_eco_tip_fallback_def)

text \<open>
  C7 as amended. Each wrapper returns a non-empty string: either the non-empty text the
  underlying generation call produced, or its canned fallback, which is a fixed string
  for question answering and for summarization and, for eco-tips, a fixed sentence with
  the topic inserted. When the generation call yields \<open>None\<close> (or the empty text) the
  wrapper returns the fallback; the gateway and the service are left as the generation
  call left them. No wrapper raises: each is a total function of its arguments.
\<close>

theorem wrappers_text_or_fallback:
  "fst (ask_granite g w p) \<noteq> [] \<and>
   (fst (ask_granite g w p) = ask_granite_fallback \<or>
    fst (make_request g w (ask_granite_prompt p) 500) = Some (fst (ask_granite g w p))) \<and>
   (\<not> truthy (fst (make_request g w (ask_granite_prompt p) 500)) \<longrightarrow>
      fst (ask_granite g w p) = ask_granite_fallback) \<and>
   snd (ask_granite g w p) = snd (make_request g w (ask_granite_prompt p) 500) \<and>
   fst (generate_summary g w p) \<noteq> [] \<and>
   (fst (generate_summary g w p) = generate_summary_fallback \<or>
    fst (make_request g w (generate_summary_prompt p) 300) =
      Some (fst (generate_summary g w p))) \<and>
   (\<not> truthy (fst (make_request g w (generate_summary_prompt p) 300)) \<longrightarrow>
      fst (generate_summary g w p) = generate_summary_fallback) \<and>
   snd (generate_summary g w p) = snd (make_request g w (generate_summary_prompt p) 300) \<and>
   fst (generate_eco_tip g w p) \<noteq> [] \<and>
   (fst (generate_eco_tip g w p) = generate_eco_tip_fallback p \<or>
    fst (make_request g w (generate_eco_tip_prompt p) 200) =
      Some (fst (generate_eco_tip g w p))) \<and>
   (\<not> truthy (fst (make_request g w (generate_eco_tip_prompt p) 200)) \<longrightarrow>
      fst (generate_eco_tip g w p) = generate_eco_tip_fallback p) \<and>
   snd (generate_eco_tip g w p) = snd (make_request g w (generate_eco_tip_prompt p) 200)"
proof -
  have a: "fst (ask_granite g w p) \<noteq> [] \<and>
     (fst (ask_granite g w p) = ask_granite_fallback \<or>
      fst (make_request g w (ask_granite_prompt p) 500) = Some (fst (ask_granite g w p))) \<and>
     (\<not> truthy (fst (make_request g w (ask_granite_prompt p) 500)) \<longrightarrow>
        fst (ask_granite g w p) = ask_granite_fallback) \<and>
     snd (ask_granite g w p) = snd (make_request g w (ask_granite_prompt p) 500)"
    by (cases "make_request g w (ask_granite_prompt p) 500")
       (auto simp: ask_granite_def py_or_def truthy_def ask_granite_fallback_def
             split: option.splits)
  have b: "fst (generate_summary g w p) \<noteq> [] \<and>
     (fst (generate_summary g w p) = generate_summary_fallback \<or>
      fst (make_request g w (generate_summary_prompt p) 300) =
        Some (fst (generate_summary g w p))) \<and>
     (\<not> truthy (fst (make_request g w (generate_summary_prompt p) 300)) \<longrightarrow>
        fst (generate_summary g w p) = generate_summary_fallback) \<and>
     snd (generate_summary g w p) = snd (make_request g w (generate_summary_prompt p) 300)"
    by (cases "make_request g w (generate_summary_prompt p) 300")
       (auto simp: generate_summary_def py_or_def truthy_def generate_summary_fallback_def
             split: option.splits)
  have c: "fst (generate_eco_tip g w p) \<noteq> [] \<and>
     (fst (generate_eco_tip g w p) = generate_eco_tip_fallback p \<or>
      fst (make_request g w (generate_eco_tip_prompt p) 200) =
        Some (fst (generate_eco_tip g w p))) \<and>
     (\<not> truthy (fst (make_request g w (generate_eco_tip_prompt p) 200)) \<longrightarrow>
        fst (generate_eco_tip g w p) = generate_eco_tip_fallback p) \<and>
     snd (generate_eco_tip g w p) = snd (make_request g w (generate_eco_tip_prompt p) 200)"
    by (cases "make_request g w (generate_eco_tip_prompt p) 200")
       (auto simp: generate_eco_tip_def py_or_def truthy_def generate_eco_tip_fallback_def
             split: option.splits)
  from a b c show ?thesis by blast
qed

theorem wrappers_text_or_fallback_witness:
  "\<not> truthy (fst (make_request c7_gateway c7_world (ask_granite_prompt ''hello'') 500)) \<and>
   fst (ask_granite c7_gateway c7_world ''hello'') = ask_granite_fallback \<and>
   \<not> truthy (fst (make_request c7_gateway c7_world (generate_summary_prompt ''hello'') 300)) \<and>
   fst (generate_summary c7_gateway c7_world ''hello'') = generate_summary_fallback \<and>
   \<not> truthy (fst (make_request c7_gateway c7_world (generate_eco_tip_prompt ''hello'') 200)) \<and>
   fst (generate_eco_tip c7_gateway c7_world ''hello'') = generate_eco_tip_fallback ''hello''"
  using wrappers_text_or_fallback [of c7_gateway c7_world "''hello''"]
  by (simp add: make_request.simps c7_gateway_def truthy_def)

section \<open>Claims about identity and access\<close>

subsection \<open>C3: issuing and verifying a token\<close>




subsection \<open>C4: authentication\<close>

text \<open>
  C4 as stated fails for a stored hash that is a string but no hash: the password
  library's \<open>verify\<close> raises on it, nothing in \<open>authenticate_user\<close> catches that, and
  the caller gets the exception, not the invalid outcome.
\<close>

theorem malformed_hash_raises:
  "lookup x_legacy_db ''555-0100'' = Some x_legacy \<and>
   password_hash x_legacy = Some ''plaintext'' \<and>
   authenticate_user x_ctx x_legacy_db ''555-0100'' ''plaintext'' 1000 =
     Inl (Exception ''hash could not be identified'')"
  by (simp add: authenticate_user_def verify_password_def lookup_def x_legacy_db_def
                x_legacy_def x_user_def x_ctx_def Let_def)

text \<open>
  C4 as amended. \<open>authenticate_user\<close> looks the subject up by equality of the
  identifier with the phone number or with the email (\<open>lookup\<close>: the first row on which
  either holds). It returns the invalid outcome, and leaves the store as it was, in
  exactly these cases: no row matches; the stored password hash is missing or is not a
  string; the password does not verify against the stored hash; the matched subject is
  inactive. When the password library's \<open>verify\<close> raises, as it does on a stored string
  that is no hash, the exception is passed to the caller. A successful authentication
  returns the matched subject with its last-login time set to the current time, and the
  store afterwards is the store before with that one row replaced by the returned
  subject: the rows before it, none of which matches, and the rows after it are as they
  were.
\<close>

theorem authenticate_user_outcomes:
  "((\<exists>db'. authenticate_user ctx db ident pw now = Inr (None, db')) \<longleftrightarrow>
      (lookup db ident = None \<or>
       (\<exists>u. lookup db ident = Some u \<and>
            (password_hash u = None \<or>
             (\<exists>h. password_hash u = Some h \<and>
                  (ctx_verify ctx pw h = Inr False \<or>
                   (ctx_verify ctx pw h = Inr True \<and> \<not> is_active u))))))) \<and>
   (authenticate_user ctx db ident pw now = Inr (None, db') \<longrightarrow> db' = db) \<and>
   (authenticate_user ctx db ident pw now = Inr (Some u', db') \<longrightarrow>
      (\<exists>u h pre post.
          lookup db ident = Some u \<and> password_hash u = Some h \<and>
          ctx_verify ctx pw h = Inr True \<and> is_active u \<and>
          u' = u\<lparr>last_login := Some now\<rparr> \<and>
          rows db = pre @ u # post \<and>
          (\<forall>x \<in> set pre. \<not> (phone_number x = ident \<or> email x = Some ident)) \<and>
          db' = db\<lparr>rows := pre @ u' # post\<rparr>)) \<and>
   (lookup db ident = Some u \<and> password_hash u = Some h \<and>
    ctx_verify ctx pw h = Inr True \<and> is_active u \<longrightarrow>
      (\<exists>db'. authenticate_user ctx db ident pw now =
               Inr (Some (u\<lparr>last_login := Some now\<rparr>), db'))) \<and>
   (authenticate_user ctx db ident pw now = Inl e \<longleftrightarrow>
      (\<exists>u h. lookup db ident = Some u \<and> password_hash u = Some h \<and>
             ctx_verify ctx pw h = Inl e)) \<and>
   (lookup db ident = None \<longleftrightarrow>
      \<not> (\<exists>u \<in> set (rows db). phone_number u = ident \<or> email u = Some ident)) \<and>
   (lookup db ident = Some u \<longrightarrow>
      u \<in> set (rows db) \<and> (phone_number u = ident \<or> email u = Some ident))"
proof (intro conjI)
  show "(\<exists>db'. authenticate_user ctx db ident pw now = Inr (None, db')) \<longleftrightarrow>
      (lookup db ident = None \<or>
       (\<exists>u. lookup db ident = Some u \<and>
            (password_hash u = None \<or>
             (\<exists>h. password_hash u = Some h \<and>
                  (ctx_verify ctx pw h = Inr False \<or>
                   (ctx_verify ctx pw h = Inr True \<and> \<not> is_active u))))))"
    by (auto simp: authenticate_user_cases split: option.splits sum.splits bool.splits)
  show "authenticate_user ctx db ident pw now = Inr (None, db') \<longrightarrow> db' = db"
    by (auto simp: authenticate_user_cases
             split: option.splits sum.splits bool.splits if_splits)
  show "authenticate_user ctx db ident pw now = Inr (Some u', db') \<longrightarrow>
      (\<exists>u h pre post.
          lookup db ident = Some u \<and> password_hash u = Some h \<and>
          ctx_verify ctx pw h = Inr True \<and> is_active u \<and>
          u' = u\<lparr>last_login := Some now\<rparr> \<and>
          rows db = pre @ u # post \<and>
          (\<forall>x \<in> set pre. \<not> (phone_number x = ident \<or> email x = Some ident)) \<and>
          db' = db\<lparr>rows := pre @ u' # post\<rparr>)"
  proof
    assume r: "authenticate_user ctx db ident pw now = Inr (Some u', db')"
    then obtain u h where
      l: "lookup db ident = Some u" and ph: "password_hash u = Some h" and
      v: "ctx_verify ctx pw h = Inr True" and a: "is_active u" and
      u': "u' = u\<lparr>last_login := Some now\<rparr>" and
      d: "db' = db\<lparr>rows := update_first
                   (\<lambda>u. phone_number u = ident \<or> email u = Some ident)
                   (\<lambda>_. u') (rows db)\<rparr>"
      by (auto simp: authenticate_user_cases
               split: option.splits sum.splits bool.splits if_splits)
    from l have "find (\<lambda>u. phone_number u = ident \<or> email u = Some ident) (rows db) = Some u"
      by (simp add: lookup_def)
    from update_first_split [OF this, of "\<lambda>_. u'"] obtain pre post where
      sp: "rows db = pre @ u # post"
          "\<forall>x \<in> set pre. \<not> (phone_number x = ident \<or> email x = Some ident)"
          "update_first (\<lambda>u. phone_number u = ident \<or> email u = Some ident)
             (\<lambda>_. u') (rows db) = pre @ u' # post"
      by blast
    from d sp(3) have d': "db' = db\<lparr>rows := pre @ u' # post\<rparr>" by simp
    have "lookup db ident = Some u \<and> password_hash u = Some h \<and>
          ctx_verify ctx pw h = Inr True \<and> is_active u \<and>
          u' = u\<lparr>last_login := Some now\<rparr> \<and>
          rows db = pre @ u # post \<and>
          (\<forall>x \<in> set pre. \<not> (phone_number x = ident \<or> email x = Some ident)) \<and>
          db' = db\<lparr>rows := pre @ u' # post\<rparr>"
      by (intro conjI l ph v a u' sp(1) sp(2) d')
    then show
      "\<exists>u h pre post.
          lookup db ident = Some u \<and> password_hash u = Some h \<and>
          ctx_verify ctx pw h = Inr True \<and> is_active u \<and>
          u' = u\<lparr>last_login := Some now\<rparr> \<and>
          rows db = pre @ u # post \<and>
          (\<forall>x \<in> set pre. \<not> (phone_number x = ident \<or> email x = Some ident)) \<and>
          db' = db\<lparr>rows := pre @ u' # post\<rparr>"
      by (intro exI)
  qed
  show "lookup db ident = Some u \<and> password_hash u = Some h \<and>
    ctx_verify ctx pw h = Inr True \<and> is_active u \<longrightarrow>
      (\<exists>db'. authenticate_user ctx db ident pw now =
               Inr (Some (u\<lparr>last_login := Some now\<rparr>), db'))"
    by (simp add: authenticate_user_cases)
  show "authenticate_user ctx db ident pw now = Inl e \<longleftrightarrow>
      (\<exists>u h. lookup db ident = Some u \<and> password_hash u = Some h \<and>
             ctx_verify ctx pw h = Inl e)"
    by (auto simp: authenticate_user_cases
             split: option.splits sum.splits bool.splits if_splits)
  show "lookup db ident = None \<longleftrightarrow>
      \<not> (\<exists>u \<in> set (rows db). phone_number u = ident \<or> email u = Some ident)"
    by (auto simp: lookup_def find_None_iff)
  show "lookup db ident = Some u \<longrightarrow>
      u \<in> set (rows db) \<and> (phone_number u = ident \<or> email u = Some ident)"
    by (auto simp: lookup_def dest: find_Some_member)
qed

lemma x_lookup:
  "lookup x_db2 ''555-0200'' = Some x_clerk \<and>
   lookup x_db2 ''bela@example.org'' = Some x_clerk \<and>
   lookup x_db2 ''555-0100'' = Some x_user \<and>
   lookup x_db2 ''555-0199'' = None"
  by (simp add: lookup_def x_db2_def x_user_def x_clerk_def)

theorem authenticate_user_outcomes_witness:
  "lookup x_db2 ''555-0200'' = Some x_clerk \<and>
   password_hash x_clerk = Some ''$2b$clerkpw'' \<and>
   ctx_verify x_ctx ''clerkpw'' ''$2b$clerkpw'' = Inr True \<and>
   ctx_verify x_ctx ''wrong'' ''$2b$clerkpw'' = Inr False \<and>
   is_active x_clerk \<and>
   authenticate_user x_ctx x_db2 ''555-0200'' ''wrong'' 1000 = Inr (None, x_db2) \<and>
   authenticate_user x_ctx x_db2 ''555-0199'' ''clerkpw'' 1000 = Inr (None, x_db2) \<and>
   authenticate_user x_ctx x_db2 ''555-0200'' ''clerkpw'' 1000 =
     Inr (Some (x_clerk\<lparr>last_login := Some 1000\<rparr>),
          x_db2\<lparr>rows := [x_user, x_clerk\<lparr>last_login := Some 1000\<rparr>]\<rparr>) \<and>
   authenticate_user x_ctx x_db2 ''bela@example.org'' ''clerkpw'' 1000 =
     Inr (Some (x_clerk\<lparr>last_login := Some 1000\<rparr>),
          x_db2\<lparr>rows := [x_user, x_clerk\<lparr>last_login := Some 1000\<rparr>]\<rparr>) \<and>
   authenticate_user x_ctx (deactivate 2 x_db2) ''555-0200'' ''clerkpw'' 1000 =
     Inr (None, deactivate 2 x_db2)"
proof -
  have found: "lookup x_db2 ''555-0200'' = Some x_clerk"
    using x_lookup by simp
  have stored: "password_hash x_clerk = Some ''$2b$clerkpw''" "is_active x_clerk"
    by (simp_all add: x_clerk_def)
  have verifies: "ctx_verify x_ctx ''clerkpw'' ''$2b$clerkpw'' = Inr True"
                 "ctx_verify x_ctx ''wrong'' ''$2b$clerkpw'' = Inr False"
    by (simp_all add: x_ctx_def)
  have runs:
    "authenticate_user x_ctx x_db2 ''555-0200'' ''wrong'' 1000 = Inr (None, x_db2)"
    "authenticate_user x_ctx x_db2 ''555-0199'' ''clerkpw'' 1000 = Inr (None, x_db2)"
    "authenticate_user x_ctx x_db2 ''555-0200'' ''clerkpw'' 1000 =
       Inr (Some (x_clerk\<lparr>last_login := Some 1000\<rparr>),
            x_db2\<lparr>rows := [x_user, x_clerk\<lparr>last_login := Some 1000\<rparr>]\<rparr>)"
    "authenticate_user x_ctx x_db2 ''bela@example.org'' ''clerkpw'' 1000 =
       Inr (Some (x_clerk\<lparr>last_login := Some 1000\<rparr>),
            x_db2\<lparr>rows := [x_user, x_clerk\<lparr>last_login := Some 1000\<rparr>]\<rparr>)"
    "authenticate_user x_ctx (deactivate 2 x_db2) ''555-0200'' ''clerkpw'' 1000 =
       Inr (None, deactivate 2 x_db2)"
    by (simp_all add: authenticate_user_def verify_password_def x_db2_def x_user_def
                      x_clerk_def x_ctx_def deactivate_def Let_def)
  from authenticate_user_outcomes
         [where ctx = x_ctx and db = x_db2 and ident = "''555-0200''" and pw = "''clerkpw''"
            and now = 1000 and u = x_clerk and h = "''$2b$clerkpw''"]
       found stored verifies
  have "\<exists>db'. authenticate_user x_ctx x_db2 ''555-0200'' ''clerkpw'' 1000 =
               Inr (Some (x_clerk\<lparr>last_login := Some 1000\<rparr>), db')"
    by blast
  with found stored verifies runs show ?thesis by blast
qed

subsection \<open>C5: registration\<close>

text \<open>
  C5. A registration whose phone number is held by a stored subject, and a registration
  that supplies an email held by a stored subject, returns the conflict outcome (the
  dictionary with the key \<open>error\<close>, not an exception) and leaves the store as it was.
  For a citizen an email is supplied when it is a non-empty string; an authority always
  supplies one. Every other registration succeeds as soon as the password library
  returns a hash: the new subject, with that hash and the active flag set, is returned
  and is stored as the last row, the rows before it unchanged. Registering the same
  subject again then conflicts on the phone number and adds no row. When the library's
  \<open>hash\<close> raises on a registration without conflict, the exception is passed on.
\<close>

theorem registration_conflicts:
  "((\<exists>u \<in> set (rows db). phone_number u = ph) \<longrightarrow>
      register_user ctx db n ph pw em ad now =
        Inr (Error ''Phone number already registered'', db) \<and>
      register_authority ctx db n pos fr ph aem pw now =
        Inr (Error ''Phone number already registered'', db)) \<and>
   (truthy em \<and> (\<exists>u \<in> set (rows db). email u = em) \<longrightarrow>
      (\<exists>msg. register_user ctx db n ph pw em ad now = Inr (Error msg, db))) \<and>
   ((\<exists>u \<in> set (rows db). email u = Some aem) \<longrightarrow>
      (\<exists>msg. register_authority ctx db n pos fr ph aem pw now = Inr (Error msg, db))) \<and>
   (register_user ctx db n ph pw em ad now = Inr (Registered u, db') \<longrightarrow>
      (\<exists>h. ctx_hash ctx pw = Inr h \<and> password_hash u = Some h) \<and>
      is_active u \<and> user_type u = RoleEnum USER \<and> phone_number u = ph \<and>
      email u = em \<and> rows db' = rows db @ [u] \<and>
      register_user ctx db' n ph pw em ad now' =
        Inr (Error ''Phone number already registered'', db')) \<and>
   (register_authority ctx db n pos fr ph aem pw now = Inr (Registered a, db'') \<longrightarrow>
      (\<exists>h. ctx_hash ctx pw = Inr h \<and> password_hash a = Some h) \<and>
      is_active a \<and> user_type a = RoleEnum AUTHORITY \<and> phone_number a = ph \<and>
      email a = Some aem \<and> rows db'' = rows db @ [a] \<and>
      register_authority ctx db'' n pos fr ph aem pw now' =
        Inr (Error ''Phone number already registered'', db'')) \<and>
   (\<not> (\<exists>u \<in> set (rows db). phone_number u = ph) \<and>
    \<not> (truthy em \<and> (\<exists>u \<in> set (rows db). email u = em)) \<and>
    ctx_hash ctx pw = Inr h \<longrightarrow>
      register_user ctx db n ph pw em ad now =
        Inr (Registered
               \<lparr>user_id = next_id db, name = n, phone_number = ph, email = em,
            password_hash = Some h, address = ad, department = None, position = None,
            feedback_route = None, user_type = RoleEnum USER, is_active = True,
            is_approved = True, created_at = now, last_login = None\<rparr>,
             \<lparr>rows = rows db @
                [\<lparr>user_id = next_id db, name = n, phone_number = ph, email = em,
            password_hash = Some h, address = ad, department = None, position = None,
            feedback_route = None, user_type = RoleEnum USER, is_active = True,
            is_approved = True, created_at = now, last_login = None\<rparr>],
              next_id = next_id db + 1\<rparr>)) \<and>
   (\<not> (\<exists>u \<in> set (rows db). phone_number u = ph) \<and>
    \<not> (\<exists>u \<in> set (rows db). email u = Some aem) \<and>
    ctx_hash ctx pw = Inr h \<longrightarrow>
      register_authority ctx db n pos fr ph aem pw now =
        Inr (Registered
               \<lparr>user_id = next_id db, name = n, phone_number = ph, email = Some aem,
            password_hash = Some h, address = None, department = None,
            position = Some pos, feedback_route = Some fr,
            user_type = RoleEnum AUTHORITY, is_active = True, is_approved = True,
            created_at = now, last_login = None\<rparr>,
             \<lparr>rows = rows db @
                [\<lparr>user_id = next_id db, name = n, phone_number = ph, email = Some aem,
            password_hash = Some h, address = None, department = None,
            position = Some pos, feedback_route = Some fr,
            user_type = RoleEnum AUTHORITY, is_active = True, is_approved = True,
            created_at = now, last_login = None\<rparr>],
              next_id = next_id db + 1\<rparr>)) \<and>
   (\<not> (\<exists>u \<in> set (rows db). phone_number u = ph) \<and> ctx_hash ctx pw = Inl e \<longrightarrow>
      (\<not> (truthy em \<and> (\<exists>u \<in> set (rows db). email u = em)) \<longrightarrow>
         register_user ctx db n ph pw em ad now = Inl e) \<and>
      (\<not> (\<exists>u \<in> set (rows db). email u = Some aem) \<longrightarrow>
         register_authority ctx db n pos fr ph aem pw now = Inl e))"
proof (intro conjI impI)
  assume h: "\<exists>u \<in> set (rows db). phone_number u = ph"
  show "register_user ctx db n ph pw em ad now =
          Inr (Error ''Phone number already registered'', db)"
    by (rule register_user_phone_conflict [OF h])
  show "register_authority ctx db n pos fr ph aem pw now =
          Inr (Error ''Phone number already registered'', db)"
    by (rule register_authority_phone_conflict [OF h])
next
  assume "truthy em \<and> (\<exists>u \<in> set (rows db). email u = em)"
  then show "\<exists>msg. register_user ctx db n ph pw em ad now = Inr (Error msg, db)"
    using register_user_email_conflict by blast
next
  assume "\<exists>u \<in> set (rows db). email u = Some aem"
  then show "\<exists>msg. register_authority ctx db n pos fr ph aem pw now = Inr (Error msg, db)"
    by (rule register_authority_email_conflict)
next
  assume r: "register_user ctx db n ph pw em ad now = Inr (Registered u, db')"
  note s = register_user_success [OF r, of now']
  from s show "\<exists>h. ctx_hash ctx pw = Inr h \<and> password_hash u = Some h" by blast
  from s show "is_active u" by blast
  from s show "user_type u = RoleEnum USER" by blast
  from s show "phone_number u = ph" by blast
  from s show "email u = em" by blast
  from s show "rows db' = rows db @ [u]" by blast
  from s show "register_user ctx db' n ph pw em ad now' =
                 Inr (Error ''Phone number already registered'', db')" by blast
next
  assume r: "register_authority ctx db n pos fr ph aem pw now = Inr (Registered a, db'')"
  note s = register_authority_success [OF r, of now']
  from s show "\<exists>h. ctx_hash ctx pw = Inr h \<and> password_hash a = Some h" by blast
  from s show "is_active a" by blast
  from s show "user_type a = RoleEnum AUTHORITY" by blast
  from s show "phone_number a = ph" by blast
  from s show "email a = Some aem" by blast
  from s show "rows db'' = rows db @ [a]" by blast
  from s show "register_authority ctx db'' n pos fr ph aem pw now' =
                 Inr (Error ''Phone number already registered'', db'')" by blast
next
  assume a: "\<not> (\<exists>u \<in> set (rows db). phone_number u = ph) \<and>
          \<not> (truthy em \<and> (\<exists>u \<in> set (rows db). email u = em)) \<and>
          ctx_hash ctx pw = Inr h"
  show "register_user ctx db n ph pw em ad now =
        Inr (Registered
               \<lparr>user_id = next_id db, name = n, phone_number = ph, email = em,
            password_hash = Some h, address = ad, department = None, position = None,
            feedback_route = None, user_type = RoleEnum USER, is_active = True,
            is_approved = True, created_at = now, last_login = None\<rparr>,
             \<lparr>rows = rows db @
                [\<lparr>user_id = next_id db, name = n, phone_number = ph, email = em,
            password_hash = Some h, address = ad, department = None, position = None,
            feedback_route = None, user_type = RoleEnum USER, is_active = True,
            is_approved = True, created_at = now, last_login = None\<rparr>],
              next_id = next_id db + 1\<rparr>)"
    by (rule register_user_succeeds
              [OF a [THEN conjunct1] a [THEN conjunct2, THEN conjunct1]
                  a [THEN conjunct2, THEN conjunct2]])
next
  assume a: "\<not> (\<exists>u \<in> set (rows db). phone_number u = ph) \<and>
          \<not> (\<exists>u \<in> set (rows db). email u = Some aem) \<and>
          ctx_hash ctx pw = Inr h"
  show "register_authority ctx db n pos fr ph aem pw now =
        Inr (Registered
               \<lparr>user_id = next_id db, name = n, phone_number = ph, email = Some aem,
            password_hash = Some h, address = None, department = None,
            position = Some pos, feedback_route = Some fr,
            user_type = RoleEnum AUTHORITY, is_active = True, is_approved = True,
            created_at = now, last_login = None\<rparr>,
             \<lparr>rows = rows db @
                [\<lparr>user_id = next_id db, name = n, phone_number = ph, email = Some aem,
            password_hash = Some h, address = None, department = None,
            position = Some pos, feedback_route = Some fr,
            user_type = RoleEnum AUTHORITY, is_active = True, is_approved = True,
            created_at = now, last_login = None\<rparr>],
              next_id = next_id db + 1\<rparr>)"
    by (rule register_authority_succeeds
              [OF a [THEN conjunct1] a [THEN conjunct2, THEN conjunct1]
                  a [THEN conjunct2, THEN conjunct2]])
next
  assume a: "\<not> (\<exists>u \<in> set (rows db). phone_number u = ph) \<and> ctx_hash ctx pw = Inl e"
     and x: "\<not> (truthy em \<and> (\<exists>u \<in> set (rows db). email u = em))"
  show "register_user ctx db n ph pw em ad now = Inl e"
    by (rule register_hash_raises
              [OF a [THEN conjunct1] a [THEN conjunct2], THEN conjunct1, THEN mp, OF x])
next
  assume a: "\<not> (\<exists>u \<in> set (rows db). phone_number u = ph) \<and> ctx_hash ctx pw = Inl e"
     and y: "\<not> (\<exists>u \<in> set (rows db). email u = Some aem)"
  show "register_authority ctx db n pos fr ph aem pw now = Inl e"
    by (rule register_hash_raises
              [OF a [THEN conjunct1] a [THEN conjunct2], THEN conjunct2, THEN mp, OF y])
qed

theorem registration_conflicts_witness:
  "register_user x_ctx x_db ''Ravi'' ''555-0100'' ''secret1'' None None 1000 =
     Inr (Error ''Phone number already registered'', x_db) \<and>
   register_authority x_ctx x_db ''Meera'' ''Engineer'' ''roads'' ''555-0100''
       ''meera@example.org'' ''secret2'' 1000 =
     Inr (Error ''Phone number already registered'', x_db) \<and>
   register_user x_ctx x_db ''Ravi'' ''555-0111'' ''secret1'' (Some ''asha@example.org'')
       None 1000 =
     Inr (Error ''Email already registered'', x_db) \<and>
   register_authority x_ctx x_db ''Meera'' ''Engineer'' ''roads'' ''555-0222''
       ''asha@example.org'' ''secret2'' 1000 =
     Inr (Error ''Email already registered'', x_db) \<and>
   register_user x_ctx x_db ''Ravi'' ''555-0111'' ''secret1'' (Some ''ravi@example.org'')
       None 1000 =
     Inr (Registered x_new_user, \<lparr>rows = [x_user, x_new_user], next_id = 3\<rparr>) \<and>
   register_user x_ctx \<lparr>rows = [x_user, x_new_user], next_id = 3\<rparr> ''Ravi'' ''555-0111''
       ''secret1'' (Some ''ravi@example.org'') None 2000 =
     Inr (Error ''Phone number already registered'',
          \<lparr>rows = [x_user, x_new_user], next_id = 3\<rparr>) \<and>
   register_authority x_ctx x_db ''Meera'' ''Engineer'' ''roads'' ''555-0222''
       ''meera@example.org'' ''secret2'' 1000 =
     Inr (Registered x_new_authority,
          \<lparr>rows = [x_user, x_new_authority], next_id = 3\<rparr>) \<and>
   register_authority x_ctx \<lparr>rows = [x_user, x_new_authority], next_id = 3\<rparr> ''Meera''
       ''Engineer'' ''roads'' ''555-0222'' ''meera@example.org'' ''secret2'' 2000 =
     Inr (Error ''Phone number already registered'',
          \<lparr>rows = [x_user, x_new_authority], next_id = 3\<rparr>) \<and>
   password_hash x_new_user = Some ''$2b$secret1'' \<and> is_active x_new_user \<and>
   password_hash x_new_authority = Some ''$2b$secret2'' \<and> is_active x_new_authority"
proof -
  have email_runs:
    "register_user x_ctx x_db ''Ravi'' ''555-0111'' ''secret1'' (Some ''asha@example.org'')
         None 1000 =
       Inr (Error ''Email already registered'', x_db)"
    "register_authority x_ctx x_db ''Meera'' ''Engineer'' ''roads'' ''555-0222''
         ''asha@example.org'' ''secret2'' 1000 =
       Inr (Error ''Email already registered'', x_db)"
    by (simp_all add: register_user_def register_authority_def x_db_def x_user_def
                      truthy_def)
  have held: "\<exists>u \<in> set (rows x_db). phone_number u = ''555-0100''"
    by (simp add: x_db_def x_user_def)
  have free_user:
    "\<not> (\<exists>u \<in> set (rows x_db). phone_number u = ''555-0111'') \<and>
     \<not> (truthy (Some ''ravi@example.org'') \<and>
        (\<exists>u \<in> set (rows x_db). email u = Some ''ravi@example.org'')) \<and>
     ctx_hash x_ctx ''secret1'' = Inr ''$2b$secret1''"
    by (simp add: x_db_def x_user_def x_ctx_def)
  have free_authority:
    "\<not> (\<exists>u \<in> set (rows x_db). phone_number u = ''555-0222'') \<and>
     \<not> (\<exists>u \<in> set (rows x_db). email u = Some ''meera@example.org'') \<and>
     ctx_hash x_ctx ''secret2'' = Inr ''$2b$secret2''"
    by (simp add: x_db_def x_user_def x_ctx_def)
  have new: "password_hash x_new_user = Some ''$2b$secret1''" "is_active x_new_user"
            "password_hash x_new_authority = Some ''$2b$secret2''"
            "is_active x_new_authority"
    by (simp_all add: x_new_user_def x_new_authority_def)
  have shape:
    "\<lparr>user_id = next_id x_db, name = ''Ravi'', phone_number = ''555-0111'',
      email = Some ''ravi@example.org'', password_hash = Some ''$2b$secret1'',
      address = None, department = None, position = None, feedback_route = None,
      user_type = RoleEnum USER, is_active = True, is_approved = True,
      created_at = 1000, last_login = None\<rparr> = x_new_user"
    "\<lparr>user_id = next_id x_db, name = ''Meera'', phone_number = ''555-0222'',
      email = Some ''meera@example.org'', password_hash = Some ''$2b$secret2'',
      address = None, department = None, position = Some ''Engineer'',
      feedback_route = Some ''roads'', user_type = RoleEnum AUTHORITY,
      is_active = True, is_approved = True, created_at = 1000,
      last_login = None\<rparr> = x_new_authority"
    "rows x_db = [x_user]" "next_id x_db + 1 = 3"
    by (simp_all add: x_new_user_def x_new_authority_def x_db_def)
  note at_held_user =
    registration_conflicts
      [where db = x_db and ph = "''555-0100''" and ctx = x_ctx and n = "''Ravi''"
         and pw = "''secret1''" and em = None and ad = None and now = 1000]
  note at_held_authority =
    registration_conflicts
      [where db = x_db and ph = "''555-0100''" and ctx = x_ctx and n = "''Meera''"
         and pos = "''Engineer''" and fr = "''roads''" and aem = "''meera@example.org''"
         and pw = "''secret2''" and now = 1000]
  note at_free_user =
    registration_conflicts
      [where db = x_db and ph = "''555-0111''" and ctx = x_ctx and n = "''Ravi''"
         and pw = "''secret1''" and em = "Some ''ravi@example.org''" and ad = None
         and now = 1000 and h = "''$2b$secret1''" and u = x_new_user
         and db' = "\<lparr>rows = [x_user, x_new_user], next_id = 3\<rparr>" and now' = 2000]
  note at_free_authority =
    registration_conflicts
      [where db = x_db and ph = "''555-0222''" and ctx = x_ctx and n = "''Meera''"
         and pos = "''Engineer''" and fr = "''roads''" and aem = "''meera@example.org''"
         and pw = "''secret2''" and now = 1000 and h = "''$2b$secret2''"
         and a = x_new_authority
         and db'' = "\<lparr>rows = [x_user, x_new_authority], next_id = 3\<rparr>"
         and now' = 2000]
  have first: "register_user x_ctx x_db ''Ravi'' ''555-0100'' ''secret1'' None None 1000 =
                 Inr (Error ''Phone number already registered'', x_db)"
    by (rule at_held_user [THEN conjunct1, THEN mp, OF held, THEN conjunct1])
  have first_authority:
    "register_authority x_ctx x_db ''Meera'' ''Engineer'' ''roads'' ''555-0100''
         ''meera@example.org'' ''secret2'' 1000 =
       Inr (Error ''Phone number already registered'', x_db)"
    by (rule at_held_authority [THEN conjunct1, THEN mp, OF held, THEN conjunct2])
  have user_ok:
    "register_user x_ctx x_db ''Ravi'' ''555-0111'' ''secret1'' (Some ''ravi@example.org'')
         None 1000 =
       Inr (Registered x_new_user, \<lparr>rows = [x_user, x_new_user], next_id = 3\<rparr>)"
    using at_free_user [THEN conjunct2, THEN conjunct2, THEN conjunct2, THEN conjunct2,
                        THEN conjunct2, THEN conjunct1, THEN mp, OF free_user]
    unfolding shape by simp
  have authority_ok:
    "register_authority x_ctx x_db ''Meera'' ''Engineer'' ''roads'' ''555-0222''
         ''meera@example.org'' ''secret2'' 1000 =
       Inr (Registered x_new_authority,
            \<lparr>rows = [x_user, x_new_authority], next_id = 3\<rparr>)"
    using at_free_authority [THEN conjunct2, THEN conjunct2, THEN conjunct2, THEN conjunct2,
                             THEN conjunct2, THEN conjunct2, THEN conjunct1, THEN mp,
                             OF free_authority]
    unfolding shape by simp
  have again: "register_user x_ctx \<lparr>rows = [x_user, x_new_user], next_id = 3\<rparr> ''Ravi''
                 ''555-0111'' ''secret1'' (Some ''ravi@example.org'') None 2000 =
               Inr (Error ''Phone number already registered'',
                    \<lparr>rows = [x_user, x_new_user], next_id = 3\<rparr>)"
    by (rule at_free_user [THEN conjunct2, THEN conjunct2, THEN conjunct2, THEN conjunct1,
                           THEN mp, OF user_ok, THEN conjunct2, THEN conjunct2,
                           THEN conjunct2, THEN conjunct2, THEN conjunct2, THEN conjunct2])
  have again_authority:
    "register_authority x_ctx \<lparr>rows = [x_user, x_new_authority], next_id = 3\<rparr> ''Meera''
         ''Engineer'' ''roads'' ''555-0222'' ''meera@example.org'' ''secret2'' 2000 =
       Inr (Error ''Phone number already registered'',
            \<lparr>rows = [x_user, x_new_authority], next_id = 3\<rparr>)"
    by (rule at_free_authority [THEN conjunct2, THEN conjunct2, THEN conjunct2,
                                THEN conjunct2, THEN conjunct1, THEN mp, OF authority_ok,
                                THEN conjunct2, THEN conjunct2, THEN conjunct2,
                                THEN conjunct2, THEN conjunct2, THEN conjunct2])
  show ?thesis
    by (intro conjI first first_authority email_runs user_ok again authority_ok
              again_authority new)
qed

subsection \<open>C6: the role gates\<close>




subsection \<open>C8: verification never raises\<close>

text \<open>
  C8. For every token string, \<open>verify_token\<close> returns: the invalid outcome \<open>None\<close> or a
  payload, never an exception. It returns a payload exactly for a token that is signed
  under the server's secret with the configured algorithm, is not past its expiry and
  passes the library's other checks, and the payload is the signed one. So a string
  that is no token, a token signed under another key or with another algorithm, and an
  expired token all give the invalid outcome.
\<close>

theorem verify_token_total:
  "(\<exists>r. verify_token cfg checks tok now = Inr r) \<and>
   (verify_token cfg checks tok now = Inr (Some payload) \<longleftrightarrow>
      tok = Signed (ALGORITHM cfg) (SECRET_KEY cfg) payload \<and> unexpired payload now \<and>
      checks payload now) \<and>
   verify_token cfg checks (Garbage s) now = Inr None \<and>
   (k \<noteq> SECRET_KEY cfg \<longrightarrow> verify_token cfg checks (Signed a k p) now = Inr None) \<and>
   (a \<noteq> ALGORITHM cfg \<longrightarrow> verify_token cfg checks (Signed a k p) now = Inr None) \<and>
   (p ''exp'' = Some (JInt e) \<and> e < now \<longrightarrow>
      verify_token cfg checks (Signed a k p) now = Inr None)"
proof (intro conjI)
  show "\<exists>r. verify_token cfg checks tok now = Inr r"
    by (rule verify_token_returns)
  show "verify_token cfg checks tok now = Inr (Some payload) \<longleftrightarrow>
      tok = Signed (ALGORITHM cfg) (SECRET_KEY cfg) payload \<and> unexpired payload now \<and>
      checks payload now"
    by (rule verify_token_Some_iff)
  show "verify_token cfg checks (Garbage s) now = Inr None"
    by (simp add: verify_token_def jwt_decode_def)
  show "k \<noteq> SECRET_KEY cfg \<longrightarrow> verify_token cfg checks (Signed a k p) now = Inr None"
    by (simp add: verify_token_def jwt_decode_def)
  show "a \<noteq> ALGORITHM cfg \<longrightarrow> verify_token cfg checks (Signed a k p) now = Inr None"
    by (simp add: verify_token_def jwt_decode_def)
  show "p ''exp'' = Some (JInt e) \<and> e < now \<longrightarrow>
      verify_token cfg checks (Signed a k p) now = Inr None"
    by (simp add: verify_token_def jwt_decode_def)
qed

theorem verify_token_total_witness:
  "''other'' \<noteq> SECRET_KEY x_cfg \<and> ''none'' \<noteq> ALGORITHM x_cfg \<and>
   (x_data(''exp'' \<mapsto> JInt 1060)) ''exp'' = Some (JInt 1060) \<and> (1060::int) < 2000 \<and>
   verify_token x_cfg x_checks (Garbage ''not.a.token'') 1000 = Inr None \<and>
   verify_token x_cfg x_checks (Signed ''HS256'' ''other'' x_data) 1000 = Inr None \<and>
   verify_token x_cfg x_checks (Signed ''none'' ''secret'' x_data) 1000 = Inr None \<and>
   verify_token x_cfg x_checks
     (Signed ''HS256'' ''secret'' (x_data(''exp'' \<mapsto> JInt 1060))) 2000 = Inr None \<and>
   verify_token x_cfg x_checks
     (Signed ''HS256'' ''secret'' (x_data(''exp'' \<mapsto> JInt 1060))) 1000 =
     Inr (Some (x_data(''exp'' \<mapsto> JInt 1060)))"
  using verify_token_total
          [of x_cfg x_checks "Signed ''HS256'' ''secret'' (x_data(''exp'' \<mapsto> JInt 1060))"
              1000 "x_data(''exp'' \<mapsto> JInt 1060)" "''not.a.token''" "''other''"
              "''HS256''" x_data]
  by (simp add: x_cfg_def x_checks_def verify_token_def jwt_decode_def)

subsection \<open>C9: deactivation and issued tokens\<close>

text \<open>
  C9 as stated fails where the token is used. \<open>verify_token\<close> alone still returns the
  payload of the seeded citizen's unexpired token after the citizen is deactivated, but
  \<open>get_current_user\<close>, which verifies the token in front of every protected handler,
  returns the citizen in the run where the active flag is set and answers 401 in the
  run where it has been cleared.
\<close>

theorem deactivation_stops_token_at_gate:
  "verify_token x_cfg x_checks (create_access_token x_cfg x_data None 1000) 1500 =
     Inr (Some (x_data(''exp'' \<mapsto> JInt 2800))) \<and>
   get_current_user x_cfg x_checks (Some (create_access_token x_cfg x_data None 1000))
     x_db 1500 = Inr x_user \<and>
   get_current_user x_cfg x_checks (Some (create_access_token x_cfg x_data None 1000))
     (deactivate 1 x_db) 1500 =
     Inl (HTTPException 401 ''User inactive or not found'')"
proof -
  have "verify_token x_cfg x_checks (create_access_token x_cfg x_data None 1000) 1500 =
          Inr (Some (x_data(''exp'' \<mapsto> JInt 2800)))"
    by (simp add: verify_created token_expiry_def x_checks_def x_cfg_def)
  with x_gate show ?thesis by blast
qed

text \<open>
  C9 as amended. No token is ever revoked: \<open>verify_token\<close> reads the token, the secret
  and the clock, not the subject store, so a token that the gate accepted still verifies
  to its payload after its subject is deactivated. But the token stops being usable:
  whenever \<open>get_current_user\<close> returns a subject for a request, the same request at
  the same instant is answered 401 once that subject's active flag is cleared.
  Deactivating any other subject leaves the answer as it was.
\<close>

theorem deactivation_and_issued_tokens:
  "(get_current_user cfg checks credentials db now = Inr u \<longrightarrow>
      get_current_user cfg checks credentials (deactivate (user_id u) db) now =
        Inl (HTTPException 401 ''User inactive or not found'') \<and>
      (\<exists>tok payload. credentials = Some tok \<and>
                      verify_token cfg checks tok now = Inr (Some payload))) \<and>
   (get_current_user cfg checks credentials db now = Inr u \<and> uid \<noteq> user_id u \<longrightarrow>
      get_current_user cfg checks credentials (deactivate uid db) now = Inr u)"
proof (intro conjI impI)
  assume g: "get_current_user cfg checks credentials db now = Inr u"
  show "get_current_user cfg checks credentials (deactivate (user_id u) db) now =
          Inl (HTTPException 401 ''User inactive or not found'')"
    by (rule get_current_user_deactivated [OF g])
  from get_current_user_Inr [OF g]
  show "\<exists>tok payload. credentials = Some tok \<and>
                       verify_token cfg checks tok now = Inr (Some payload)"
    by blast
next
  assume "get_current_user cfg checks credentials db now = Inr u \<and> uid \<noteq> user_id u"
  then show "get_current_user cfg checks credentials (deactivate uid db) now = Inr u"
    using get_current_user_other by blast
qed

theorem deactivation_and_issued_tokens_witness:
  "get_current_user x_cfg x_checks (Some (create_access_token x_cfg x_data None 1000))
     x_db 1500 = Inr x_user \<and>
   user_id x_user = 1 \<and> (7::int) \<noteq> user_id x_user \<and>
   get_current_user x_cfg x_checks (Some (create_access_token x_cfg x_data None 1000))
     (deactivate 1 x_db) 1500 =
     Inl (HTTPException 401 ''User inactive or not found'') \<and>
   get_current_user x_cfg x_checks (Some (create_access_token x_cfg x_data None 1000))
     (deactivate 7 x_db) 1500 = Inr x_user"
proof -
  have g: "get_current_user x_cfg x_checks
             (Some (create_access_token x_cfg x_data None 1000)) x_db 1500 = Inr x_user"
    using x_gate by blast
  have i: "user_id x_user = 1" "(7::int) \<noteq> user_id x_user"
    by (simp_all add: x_user_def)
  from deactivation_and_issued_tokens
         [where cfg = x_cfg and checks = x_checks
            and credentials = "Some (create_access_token x_cfg x_data None 1000)"
            and db = x_db and now = 1500 and u = x_user and uid = 7]
       g i
  have "get_current_user x_cfg x_checks
          (Some (create_access_token x_cfg x_data None 1000))
          (deactivate (user_id x_user) x_db) 1500 =
          Inl (HTTPException 401 ''User inactive or not found'') \<and>
        get_current_user x_cfg x_checks
          (Some (create_access_token x_cfg x_data None 1000))
          (deactivate 7 x_db) 1500 = Inr x_user"
    by blast
  with g i show ?thesis by simp
qed

subsection \<open>C10: the multi-role gate with no role\<close>

text \<open>
  C10. The multi-role gate built with an empty set of allowed roles returns every
  subject it is given, whatever its role: behind \<open>get_current_user\<close> it answers exactly
  as \<open>get_current_user\<close> does, and so never with 403.
\<close>

theorem empty_allowed_set_allows_all:
  "require_any_role [] u = Inr u \<and>
   depends (get_current_user cfg checks credentials db now) (require_any_role []) =
     get_current_user cfg checks credentials db now"
  by (simp add: require_any_role_def depends_def split: sum.splits)

theorem empty_allowed_set_allows_all_witness:
  "get_current_user x_cfg x_checks (Some (create_access_token x_cfg x_data None 1000))
     x_db 1500 = Inr x_user \<and>
   depends (get_current_user x_cfg x_checks
              (Some (create_access_token x_cfg x_data None 1000)) x_db 1500)
     (require_any_role []) = Inr x_user \<and>
   require_any_role [] x_stranger = Inr x_stranger"
  using empty_allowed_set_allows_all
          [of x_stranger x_cfg x_checks "Some (create_access_token x_cfg x_data None 1000)"
              x_db 1500]
        x_gate
  by simp

end
